theory Spec2Isabelle
  imports Complex_Main "HOL-Library.Sublist"
begin

section \<open>piNAS dashboard: shallow embedding\<close>

text \<open>
  The development follows \<^verbatim>\<open>docs/masterpiece-dashboard.py\<close> and, where a claim
  names them, its two sibling variants \<^verbatim>\<open>docs/redesigned-dashboard.py\<close> and
  \<^verbatim>\<open>docs/new-dashboard.py\<close>. Python's unbounded integers are \<open>int\<close> (or \<open>nat\<close>
  for lengths and counters), Python's floats are idealised as \<open>real\<close> (rounding of the
  binary representation is not modelled), \<open>int(x)\<close> on a float is truncation toward zero,
  module-level globals mutated by a function are fields of an explicit state record, and
  every \<open>raise\<close> is a value of a sum type.
\<close>

subsection \<open>Configuration constants\<close>

definition WIDTH :: int where "WIDTH = 320"
definition HEIGHT :: int where "HEIGHT = 240"

definition HISTORY_SIZE :: nat where "HISTORY_SIZE = 100"

definition max_screens :: nat where "max_screens = 3"
definition touch_debounce :: real where "touch_debounce = 0.2"

type_synonym color = "int \<times> int \<times> int"

definition STATUS_ONLINE :: color where "STATUS_ONLINE = (0, 255, 150)"
definition STATUS_WARNING :: color where "STATUS_WARNING = (255, 180, 0)"
definition STATUS_ERROR :: color where "STATUS_ERROR = (255, 60, 80)"

definition GRADIENT_PRIMARY :: "color list" where
  "GRADIENT_PRIMARY = [(100, 40, 240), (180, 100, 255)]"
definition GRADIENT_SUCCESS :: "color list" where
  "GRADIENT_SUCCESS = [(0, 200, 120), (0, 255, 180)]"
definition GRADIENT_WARNING :: "color list" where
  "GRADIENT_WARNING = [(255, 150, 0), (255, 200, 60)]"
definition GRADIENT_ERROR :: "color list" where
  "GRADIENT_ERROR = [(255, 50, 80), (255, 120, 140)]"
definition GRADIENT_INFO :: "color list" where
  "GRADIENT_INFO = [(30, 150, 255), (100, 200, 255)]"

text \<open>\<open>int(x)\<close> for a Python float \<open>x\<close>: the integer part, rounding toward zero.\<close>

definition py_int :: "real \<Rightarrow> int" where
  "py_int x = (if 0 \<le> x then \<lfloor>x\<rfloor> else \<lceil>x\<rceil>)"

subsection \<open>Bounded history buffers\<close>

text \<open>
  The four histories are \<^verbatim>\<open>collections.deque(maxlen=HISTORY_SIZE)\<close>. The deque is
  the list of its elements, oldest first (what iterating it yields), and \<open>append\<close> on a
  bounded deque adds the value on the right and, when the length then exceeds \<open>maxlen\<close>,
  discards one element from the left.
\<close>

definition deque_append :: "nat \<Rightarrow> 'a list \<Rightarrow> 'a \<Rightarrow> 'a list" where
  "deque_append maxlen d v =
     (let d' = d @ [v] in if length d' > maxlen then tl d' else d')"

text \<open>A run of pushes into an initially empty buffer, as the main loop does tick by tick.\<close>

definition pushes :: "nat \<Rightarrow> 'a list \<Rightarrow> 'a list" where
  "pushes maxlen vs = foldl (deque_append maxlen) [] vs"


subsection \<open>Navigation state and touch debounce\<close>

text \<open>
  \<^verbatim>\<open>handle_touch\<close> mutates the two globals \<^verbatim>\<open>current_screen\<close> and
  \<^verbatim>\<open>last_touch_time\<close>; they are the fields of \<open>ui_state\<close>. The reading of
  \<^verbatim>\<open>time.time()\<close> is the explicit argument \<open>current_time\<close>. The arguments
  \<open>x\<close>, \<open>y\<close> and \<open>drives\<close> are taken and not used, as in the source.
\<close>

record ui_state =
  current_screen :: nat
  last_touch_time :: real

definition initial_ui :: ui_state where
  "initial_ui = \<lparr>current_screen = 0, last_touch_time = 0\<rparr>"

definition handle_touch :: "real \<Rightarrow> int \<Rightarrow> int \<Rightarrow> 'd \<Rightarrow> ui_state \<Rightarrow> ui_state" where
  "handle_touch current_time x y drives s =
     (if current_time - last_touch_time s < touch_debounce then s
      else s\<lparr>last_touch_time := current_time,
             current_screen := (current_screen s + 1) mod max_screens\<rparr>)"

text \<open>A touch is accepted when the handler gets past its early \<^verbatim>\<open>return\<close>.\<close>

definition accepted :: "real \<Rightarrow> ui_state \<Rightarrow> bool" where
  "accepted current_time s = (\<not> current_time - last_touch_time s < touch_debounce)"

text \<open>
  The times the handler compares are doubles: a reading of \<^verbatim>\<open>time.time()\<close>, and
  \<^verbatim>\<open>last_touch_time\<close>, which is 0 or an earlier reading. Every double of magnitude
  at least 0.5, and 0, is an integer multiple of \<open>2^-53\<close>; \<open>double_grid\<close> says so of a
  real. The difference of two such doubles that is smaller than 0.5 is computed without
  rounding, and it is again on the grid; a larger difference is rounded to a double that
  is still at least 0.5, so its comparison with 0.2 comes out the same.
\<close>

definition double_grid :: "real \<Rightarrow> bool" where
  "double_grid t = (real_of_int \<lfloor>t * 2 ^ 53\<rfloor> = t * 2 ^ 53)"

text \<open>The double that the literal \<^verbatim>\<open>0.2\<close> denotes.\<close>

definition double_0_2 :: real where
  "double_0_2 = 3602879701896397 / 2 ^ 54"

subsection \<open>Usage bar fill\<close>

text \<open>
  The fill of a drive's usage bar, \<^verbatim>\<open>draw_drives_screen\<close> and
  \<^verbatim>\<open>draw_overview_screen\<close> of the masterpiece variant: nothing is drawn unless
  \<^verbatim>\<open>used_percent > 0\<close>, otherwise the pair of the fill width and the fill colour.
\<close>

definition drives_bar_color :: "real \<Rightarrow> color" where
  "drives_bar_color used_percent =
     (if used_percent > 90 then STATUS_ERROR
      else if used_percent > 75 then STATUS_WARNING
      else GRADIENT_INFO ! 1)"

definition overview_bar_color :: "real \<Rightarrow> color" where
  "overview_bar_color used_percent =
     (if used_percent > 90 then STATUS_ERROR
      else if used_percent > 75 then STATUS_WARNING
      else GRADIENT_INFO ! 1)"

definition usage_fill :: "(real \<Rightarrow> color) \<Rightarrow> int \<Rightarrow> real \<Rightarrow> (int \<times> color) option" where
  "usage_fill bar_color bar_width used_percent =
     (if used_percent > 0
      then Some (py_int (bar_width * used_percent / 100), bar_color used_percent)
      else None)"

text \<open>The same expression in the redesigned variant, over that file's palette.\<close>

definition COLOR_SUBTEXT :: color where "COLOR_SUBTEXT = (180, 180, 180)"
definition COLOR_WARNING :: color where "COLOR_WARNING = (255, 200, 0)"
definition COLOR_ERROR :: color where "COLOR_ERROR = (255, 50, 50)"
definition COLOR_INFO :: color where "COLOR_INFO = (100, 150, 255)"

definition redesigned_bar_color :: "real \<Rightarrow> color" where
  "redesigned_bar_color used_percent =
     (if used_percent > 90 then COLOR_ERROR
      else if used_percent > 75 then COLOR_WARNING
      else COLOR_INFO)"

subsection \<open>Network rate and the network history\<close>

text \<open>
  The network part of \<^verbatim>\<open>get_system_stats\<close>. The function attribute
  \<^verbatim>\<open>last_net\<close> is \<open>None\<close> before the first call. The arguments are the two byte
  counters read from \<^verbatim>\<open>psutil.net_io_counters()\<close> and the two readings of
  \<^verbatim>\<open>time.time()\<close> the body makes; the result is \<^verbatim>\<open>stats['net_speed_kb']\<close> with
  the new attribute.
\<close>

type_synonym last_net = "(int \<times> int \<times> real) option"

definition net_speed :: "last_net \<Rightarrow> int \<Rightarrow> int \<Rightarrow> real \<Rightarrow> real \<Rightarrow> real \<times> last_net" where
  "net_speed attr bytes_sent bytes_recv t1 t2 =
     (case attr of
        None \<Rightarrow> (0, Some (bytes_sent, bytes_recv, t1))
      | Some (last_sent, last_recv, last_time) \<Rightarrow>
          (let time_delta = t1 - last_time in
           (if time_delta > 0
            then real_of_int ((bytes_sent - last_sent) + (bytes_recv - last_recv))
                   / time_delta / 1024
            else 0,
            Some (bytes_sent, bytes_recv, t2))))"

text \<open>What \<^verbatim>\<open>main\<close> appends to \<^verbatim>\<open>network_history\<close> for a rate in KB/s.\<close>

definition network_sample :: "real \<Rightarrow> real" where
  "network_sample net_speed_kb = min 100 (net_speed_kb / 10)"

definition network_history_update :: "real list \<Rightarrow> real \<Rightarrow> real list" where
  "network_history_update network_history net_speed_kb =
     deque_append HISTORY_SIZE network_history (network_sample net_speed_kb)"

text \<open>
  The new-dashboard variant appends inside its own \<^verbatim>\<open>get_system_stats\<close>, with
  \<^verbatim>\<open>HISTORY_SIZE = 60\<close> and \<^verbatim>\<open>UPDATE_INTERVAL = 0.5\<close>. The argument is the
  result of reading the counters: the sum of the two byte counters, or the exception.
\<close>

datatype py_error = SensorError | UnboundLocalError | TypeError

definition new_dashboard_network_update :: "real list \<Rightarrow> py_error + int \<Rightarrow> real list" where
  "new_dashboard_network_update network_history counters =
     (case counters of
        Inl e \<Rightarrow> deque_append 60 network_history 0
      | Inr current_bytes \<Rightarrow>
          (if network_history \<noteq> []
           then (let last_bytes = last network_history;
                     bytes_per_sec = (real_of_int current_bytes - last_bytes) / 0.5
                 in deque_append 60 network_history (bytes_per_sec / 1024))
           else deque_append 60 network_history 0))"

subsection \<open>Touch calibration\<close>

text \<open>
  The touch object is what its attribute reads give, each either a value or the exception
  it raises: \<^verbatim>\<open>touched\<close> and \<^verbatim>\<open>read_data()\<close> for the STMPE610,
  \<^verbatim>\<open>touch_point\<close> for the XPT2046. The source reads \<^verbatim>\<open>touch_point\<close> twice
  (once for the test, once to unpack), so there are two readings. The driver tag is the
  string set by \<^verbatim>\<open>init_display_and_touch\<close>, or \<open>None\<close>.
\<close>

record touch_dev =
  touched :: "py_error + bool"
  read_data :: "py_error + (int \<times> int \<times> int)"
  touch_point :: "py_error + (int \<times> int) option"
  touch_point_again :: "py_error + (int \<times> int) option"

text \<open>
  The two statements after the \<^verbatim>\<open>if/elif\<close>: they read the locals
  \<^verbatim>\<open>screen_x\<close> and \<^verbatim>\<open>screen_y\<close>, which are bound only if a branch assigned
  them; reading an unbound local raises.
\<close>

definition clamp_to_screen :: "int option \<Rightarrow> int option \<Rightarrow> py_error + (int \<times> int) option" where
  "clamp_to_screen sx sy =
     (case sx of
        None \<Rightarrow> Inl UnboundLocalError
      | Some screen_x \<Rightarrow>
          (case sy of
             None \<Rightarrow> Inl UnboundLocalError
           | Some screen_y \<Rightarrow>
               Inr (Some (max 0 (min (WIDTH - 1) screen_x), max 0 (min (HEIGHT - 1) screen_y)))))"

definition calibrate :: "int \<Rightarrow> int \<Rightarrow> int \<Rightarrow> int \<Rightarrow> int \<Rightarrow> int \<Rightarrow> int \<times> int" where
  "calibrate MIN_X MAX_X MIN_Y MAX_Y x_raw y_raw =
     (let x_norm = max 0 (min 1 (real_of_int (x_raw - MIN_X) / real_of_int (MAX_X - MIN_X)));
          y_norm = max 0 (min 1 (real_of_int (y_raw - MIN_Y) / real_of_int (MAX_Y - MIN_Y)));
          screen_x = py_int (y_norm * real_of_int WIDTH);
          screen_y = py_int ((1.0 - x_norm) * real_of_int HEIGHT)
      in (screen_x, screen_y))"

text \<open>The body of the \<^verbatim>\<open>try\<close>: \<open>Inl\<close> is a raised exception, \<open>Inr\<close> the returned value.\<close>

definition map_touch_body :: "touch_dev \<Rightarrow> string option \<Rightarrow> py_error + (int \<times> int) option" where
  "map_touch_body touch driver =
     (if driver = Some ''STMPE610'' then
        (case touched touch of
           Inl e \<Rightarrow> Inl e
         | Inr t \<Rightarrow>
             if \<not> t then Inr None
             else (case read_data touch of
                     Inl e \<Rightarrow> Inl e
                   | Inr (x_raw, y_raw, z) \<Rightarrow>
                       (let (screen_x, screen_y) = calibrate 200 3800 200 3800 x_raw y_raw
                        in clamp_to_screen (Some screen_x) (Some screen_y))))
      else if driver = Some ''XPT2046'' then
        (case touch_point touch of
           Inl e \<Rightarrow> Inl e
         | Inr None \<Rightarrow> Inr None
         | Inr (Some p) \<Rightarrow>
             (case touch_point_again touch of
                Inl e \<Rightarrow> Inl e
              | Inr None \<Rightarrow> Inl TypeError
              | Inr (Some (x_raw, y_raw)) \<Rightarrow>
                  (let (screen_x, screen_y) = calibrate 300 3800 300 3800 x_raw y_raw
                   in clamp_to_screen (Some screen_x) (Some screen_y))))
      else clamp_to_screen None None)"

text \<open>The bare \<^verbatim>\<open>except: return None\<close> around the body.\<close>

definition map_touch :: "touch_dev \<Rightarrow> string option \<Rightarrow> (int \<times> int) option" where
  "map_touch touch driver =
     (case map_touch_body touch driver of Inl e \<Rightarrow> None | Inr r \<Rightarrow> r)"

subsection \<open>Drawing operations\<close>

text \<open>
  A frame is drawn by calls on a \<^verbatim>\<open>PIL.ImageDraw\<close> object over a fresh image. The
  model of a drawing function is the list of the calls it makes, in order, with their
  arguments; rasterising the calls into pixels is the imaging library's part. Boxes are
  \<open>[x0, y0, x1, y1]\<close>, angles are in degrees, measured from 3 o'clock and increasing
  clockwise, so that \<open>-90\<close> is the top. The type \<open>'f\<close> is that of a loaded font.
\<close>

type_synonym point = "real \<times> real"
type_synonym box = "real \<times> real \<times> real \<times> real"

datatype 'f draw_op =
    Line "point list" color int
  | Rectangle box color
  | Pieslice box int int color
  | Arc box int int color int
  | Ellipse box "color option" "color option"
  | Polygon "point list" color
  | Text point string 'f color

subsection \<open>Circular progress indicator\<close>

text \<open>The local \<^verbatim>\<open>angle\<close> of \<^verbatim>\<open>draw_circular_progress\<close>.\<close>

definition progress_angle :: "real \<Rightarrow> int" where
  "progress_angle percent = py_int (360 * percent / 100)"

definition draw_circular_progress ::
  "int \<Rightarrow> int \<Rightarrow> int \<Rightarrow> real \<Rightarrow> color \<Rightarrow> color \<Rightarrow> int \<Rightarrow> 'f draw_op list" where
  "draw_circular_progress cx cy radius percent color bg_color thickness =
     [Arc (cx - radius, cy - radius, cx + radius, cy + radius) 0 360 bg_color thickness]
     @ (if percent > 0
        then [Arc (cx - radius, cy - radius, cx + radius, cy + radius)
                (-90) (-90 + progress_angle percent) color thickness]
        else [])"

subsection \<open>Boot animation\<close>

text \<open>
  \<^verbatim>\<open>draw_boot_animation\<close> runs \<^verbatim>\<open>for frame in range(frames)\<close> and computes
  everything in a frame from \<^verbatim>\<open>t = frame / frames\<close>. The definitions below are
  the quantities of one frame as functions of \<open>t\<close>: the three locals set by the
  \<^verbatim>\<open>if/elif/else\<close> on \<open>t\<close>, the position and drawn size of blob \<open>i\<close>, and the
  alpha and colour of the label, which is drawn only when \<^verbatim>\<open>t > 0.5\<close>.
\<close>

definition boot_frames :: nat where "boot_frames = 90"
definition num_blobs :: nat where "num_blobs = 4"
definition render_width :: int where "render_width = 160"
definition render_height :: int where "render_height = 120"

definition boot_t :: "nat \<Rightarrow> real" where
  "boot_t frame = real frame / real boot_frames"

definition boot_ts :: "real list" where
  "boot_ts = map boot_t [0..<boot_frames]"

record boot_phase =
  orbit_radius :: real
  blob_size :: real
  explosion :: real

definition boot_phase_of :: "real \<Rightarrow> boot_phase" where
  "boot_phase_of t =
     (if t < 0.4 then
        (let phase_t = t / 0.4 in
         \<lparr>orbit_radius = 80 * (1 - phase_t), blob_size = 8 * phase_t, explosion = 0\<rparr>)
      else if t < 0.7 then
        (let phase_t = (t - 0.4) / 0.3 in
         \<lparr>orbit_radius = 25, blob_size = 8 + 8 * phase_t, explosion = 0\<rparr>)
      else
        (let phase_t = (t - 0.7) / 0.3 in
         \<lparr>orbit_radius = 25 * (1 - phase_t * 0.8), blob_size = 16 + 30 * phase_t,
          explosion = phase_t\<rparr>))"

definition boot_angle :: "real \<Rightarrow> real" where
  "boot_angle t = t * pi * 6"

definition blob_angle :: "real \<Rightarrow> nat \<Rightarrow> real" where
  "blob_angle t i = boot_angle t + (real i * pi * 2 / real num_blobs)"

text \<open>
  The centre of blob \<open>i\<close> before the two \<^verbatim>\<open>int(...)\<close> conversions, and the pixel
  \<^verbatim>\<open>(bx, by)\<close> after them.
\<close>

definition blob_center :: "real \<Rightarrow> nat \<Rightarrow> real \<times> real" where
  "blob_center t i =
     (let cx = render_width div 2; cy = render_height div 2
      in (real_of_int cx + cos (blob_angle t i) * orbit_radius (boot_phase_of t),
          real_of_int cy + sin (blob_angle t i) * orbit_radius (boot_phase_of t)))"

definition blob_pos :: "real \<Rightarrow> nat \<Rightarrow> int \<times> int" where
  "blob_pos t i = (py_int (fst (blob_center t i)), py_int (snd (blob_center t i)))"

definition blob_current_size :: "real \<Rightarrow> nat \<Rightarrow> int" where
  "blob_current_size t i =
     (let pulse = 1.0 + 0.2 * sin (boot_angle t * 2 + real i)
      in py_int (blob_size (boot_phase_of t) * pulse))"

definition text_alpha :: "real \<Rightarrow> real option" where
  "text_alpha t = (if t > 0.5 then Some ((t - 0.5) / 0.5) else None)"

definition scale_color :: "real \<Rightarrow> color \<Rightarrow> color" where
  "scale_color a c = (case c of (r, g, b) \<Rightarrow>
     (py_int (real_of_int r * a), py_int (real_of_int g * a), py_int (real_of_int b * a)))"

definition text_color :: "real \<Rightarrow> color option" where
  "text_color t = map_option (\<lambda>a. scale_color a (GRADIENT_PRIMARY ! 1)) (text_alpha t)"

subsection \<open>Frame composition: data, environment and library\<close>

text \<open>
  The inputs of a frame are the \<^verbatim>\<open>stats\<close> dictionary of \<^verbatim>\<open>get_system_stats\<close>,
  the list of \<^verbatim>\<open>USBDrive\<close> objects, the version pair, the four history deques, the
  current screen and the animation phase. Beyond these the renderers read the wall clock
  (\<^verbatim>\<open>datetime.now()\<close>) and, through \<^verbatim>\<open>USBDrive.is_shared\<close> and
  \<^verbatim>\<open>USBDrive.get_filesystem_type\<close>, the output of two external commands; the
  record \<open>env\<close> holds what these give while one frame is drawn. The functions of the
  imaging and formatting libraries that the renderers call and whose result they use are
  the fields of \<open>pylib\<close>: \<^verbatim>\<open>font.getbbox(text)\<close> and the float format
  \<^verbatim>\<open>f"{v:.Nf}"\<close>.
\<close>

record stats =
  cpu_percent :: real
  temperature :: "real option"
  memory_percent :: real
  memory_used_gb :: real
  memory_total_gb :: real
  disk_percent :: real
  disk_used_gb :: real
  disk_total_gb :: real
  net_speed_kb :: real
  ip_address :: string

record USBDrive =
  mount_path :: string
  name :: string
  total_bytes :: int
  free_bytes :: int
  used_bytes :: int
  used_percent :: real

record datetime =
  hour :: nat
  minute :: nat
  day :: nat
  month :: nat

record env =
  now :: datetime
  smbstatus :: "py_error + string"
  findmnt :: "string \<Rightarrow> py_error + string"

record 'f pylib =
  getbbox :: "'f \<Rightarrow> string \<Rightarrow> int \<times> int \<times> int \<times> int"
  fmt :: "nat \<Rightarrow> real \<Rightarrow> string"

record 'f fonts =
  font_title :: 'f
  font_big :: 'f
  font_medium :: 'f
  font_regular :: 'f
  font_small :: 'f
  font_tiny :: 'f

record frame_inputs =
  in_stats :: stats
  in_version :: string
  in_is_latest :: bool
  in_drives :: "USBDrive list"
  in_cpu_history :: "real list"
  in_memory_history :: "real list"
  in_disk_history :: "real list"
  in_network_history :: "real list"
  in_current_screen :: nat
  in_animation_phase :: real

definition BG_DARK :: color where "BG_DARK = (10, 10, 15)"
definition BG_CARD :: color where "BG_CARD = (20, 22, 30)"
definition TEXT_PRIMARY :: color where "TEXT_PRIMARY = (255, 255, 255)"
definition TEXT_SECONDARY :: color where "TEXT_SECONDARY = (160, 165, 180)"
definition TEXT_MUTED :: color where "TEXT_MUTED = (100, 105, 120)"
definition COLOR_CPU :: color where "COLOR_CPU = (255, 90, 120)"
definition COLOR_MEM :: color where "COLOR_MEM = (100, 220, 255)"
definition COLOR_DISK :: color where "COLOR_DISK = (160, 100, 255)"
definition COLOR_NET :: color where "COLOR_NET = (255, 200, 80)"
definition COLOR_CPU_GLOW :: "int \<times> int \<times> int \<times> int" where
  "COLOR_CPU_GLOW = (255, 90, 120, 80)"
definition COLOR_MEM_GLOW :: "int \<times> int \<times> int \<times> int" where
  "COLOR_MEM_GLOW = (100, 220, 255, 80)"
definition COLOR_DISK_GLOW :: "int \<times> int \<times> int \<times> int" where
  "COLOR_DISK_GLOW = (160, 100, 255, 80)"
definition COLOR_NET_GLOW :: "int \<times> int \<times> int \<times> int" where
  "COLOR_NET_GLOW = (255, 200, 80, 80)"

subsubsection \<open>Strings\<close>

definition digit_char :: "nat \<Rightarrow> char" where
  "digit_char d = ''0123456789'' ! (d mod 10)"

text \<open>\<open>str(n)\<close> for a non-negative integer.\<close>

fun str_nat :: "nat \<Rightarrow> string" where
  "str_nat n = (if n < 10 then [digit_char n] else str_nat (n div 10) @ [digit_char n])"

text \<open>The two \<^verbatim>\<open>strftime\<close> formats used: \<^verbatim>\<open>%H:%M\<close> and \<^verbatim>\<open>%d %b\<close>.\<close>

definition two_digits :: "nat \<Rightarrow> string" where
  "two_digits n = [digit_char (n div 10), digit_char n]"

definition month_abbr :: "nat \<Rightarrow> string" where
  "month_abbr m =
     [''Jan'', ''Feb'', ''Mar'', ''Apr'', ''May'', ''Jun'',
      ''Jul'', ''Aug'', ''Sep'', ''Oct'', ''Nov'', ''Dec''] ! ((m - 1) mod 12)"

definition strftime_HM :: "datetime \<Rightarrow> string" where
  "strftime_HM dt = two_digits (hour dt) @ '':'' @ two_digits (minute dt)"

definition strftime_dB :: "datetime \<Rightarrow> string" where
  "strftime_dB dt = two_digits (day dt) @ '' '' @ month_abbr (month dt)"

text \<open>\<open>str.strip()\<close> and \<open>str.upper()\<close>, on ASCII: the whitespace of
  \<open>str.isspace\<close> below 128 is the space, 0x09 to 0x0D and 0x1C to 0x1F.\<close>

definition is_space :: "char \<Rightarrow> bool" where
  "is_space c =
     (c \<in> set [CHR '' '', CHR 0x09, CHR 0x0A, CHR 0x0B, CHR 0x0C, CHR 0x0D,
                CHR 0x1C, CHR 0x1D, CHR 0x1E, CHR 0x1F])"

definition strip :: "string \<Rightarrow> string" where
  "strip s = rev (dropWhile is_space (rev (dropWhile is_space s)))"

definition upper_char :: "char \<Rightarrow> char" where
  "upper_char c =
     (case map_of (zip ''abcdefghijklmnopqrstuvwxyz'' ''ABCDEFGHIJKLMNOPQRSTUVWXYZ'') c of
        None \<Rightarrow> c | Some u \<Rightarrow> u)"

definition upper :: "string \<Rightarrow> string" where
  "upper s = map upper_char s"

text \<open>The degree sign of \<^verbatim>\<open>"\<degree>C"\<close>, as its two UTF-8 bytes.\<close>

definition degree_C :: string where
  "degree_C = [CHR 0xC2, CHR 0xB0, CHR ''C'']"

subsubsection \<open>Methods of \<^verbatim>\<open>USBDrive\<close>\<close>

text \<open>
  \<^verbatim>\<open>is_shared\<close> runs \<^verbatim>\<open>smbstatus -S\<close> and tests \<^verbatim>\<open>self.name in output\<close>;
  \<^verbatim>\<open>get_filesystem_type\<close> runs \<^verbatim>\<open>findmnt\<close> on the mount path and returns
  \<^verbatim>\<open>result.stdout.strip() or "unknown"\<close>. Both return their default when the command
  raises.
\<close>

definition is_shared :: "env \<Rightarrow> USBDrive \<Rightarrow> bool" where
  "is_shared e drive =
     (case smbstatus e of Inl err \<Rightarrow> False | Inr output \<Rightarrow> sublist (name drive) output)"

definition get_filesystem_type :: "env \<Rightarrow> USBDrive \<Rightarrow> string" where
  "get_filesystem_type e drive =
     (case findmnt e (mount_path drive) of
        Inl err \<Rightarrow> ''unknown''
      | Inr stdout \<Rightarrow> (if strip stdout = [] then ''unknown'' else strip stdout))"

fun format_size_units :: "'f pylib \<Rightarrow> string list \<Rightarrow> real \<Rightarrow> string" where
  "format_size_units lib [] bytes_val = fmt lib 1 bytes_val @ ''PB''"
| "format_size_units lib (unit # units) bytes_val =
     (if bytes_val < 1024.0 then fmt lib 1 bytes_val @ unit
      else format_size_units lib units (bytes_val / 1024.0))"

definition format_size :: "'f pylib \<Rightarrow> int \<Rightarrow> string" where
  "format_size lib bytes_val =
     format_size_units lib [''B'', ''KB'', ''MB'', ''GB'', ''TB''] (real_of_int bytes_val)"

subsection \<open>Drawing utilities\<close>

definition interpolate_color :: "color \<Rightarrow> color \<Rightarrow> real \<Rightarrow> color" where
  "interpolate_color color1 color2 factor =
     (case (color1, color2) of ((r1, g1, b1), (r2, g2, b2)) \<Rightarrow>
        (py_int (real_of_int r1 + real_of_int (r2 - r1) * factor),
         py_int (real_of_int g1 + real_of_int (g2 - g1) * factor),
         py_int (real_of_int b1 + real_of_int (b2 - b1) * factor)))"

definition draw_rounded_rect ::
  "int \<Rightarrow> int \<Rightarrow> int \<Rightarrow> int \<Rightarrow> int \<Rightarrow> color \<Rightarrow> color option \<Rightarrow> int \<Rightarrow> 'f draw_op list" where
  "draw_rounded_rect x y width height radius0 fill outline width_outline =
     (let radius = min radius0 (min (width div 2) (height div 2)) in
      (if width > radius * 2
       then [Rectangle (x + radius, y, x + width - radius, y + height) fill] else [])
      @ (if height > radius * 2
         then [Rectangle (x, y + radius, x + width, y + height - radius) fill] else [])
      @ (if radius > 0
         then [Pieslice (x, y, x + radius * 2, y + radius * 2) 180 270 fill,
               Pieslice (x + width - radius * 2, y, x + width, y + radius * 2) 270 360 fill,
               Pieslice (x, y + height - radius * 2, x + radius * 2, y + height) 90 180 fill,
               Pieslice (x + width - radius * 2, y + height - radius * 2, x + width, y + height)
                 0 90 fill]
         else [])
      @ (case outline of
           None \<Rightarrow> []
         | Some oc \<Rightarrow>
             [Arc (x, y, x + radius * 2, y + radius * 2) 180 270 oc width_outline,
              Arc (x + width - radius * 2, y, x + width, y + radius * 2) 270 360 oc width_outline,
              Arc (x, y + height - radius * 2, x + radius * 2, y + height) 90 180 oc width_outline,
              Arc (x + width - radius * 2, y + height - radius * 2, x + width, y + height)
                0 90 oc width_outline,
              Line [(x + radius, y), (x + width - radius, y)] oc width_outline,
              Line [(x + radius, y + height), (x + width - radius, y + height)] oc width_outline,
              Line [(x, y + radius), (x, y + height - radius)] oc width_outline,
              Line [(x + width, y + radius), (x + width, y + height - radius)] oc
                width_outline]))"

text \<open>
  \<^verbatim>\<open>draw_sparkline\<close>: nothing for fewer than two values; otherwise the glow
  segments, the filled area, the line segments and the dot on the last point.
\<close>

definition draw_sparkline ::
  "int \<Rightarrow> int \<Rightarrow> int \<Rightarrow> int \<Rightarrow> real list \<Rightarrow> color \<Rightarrow> (int \<times> int \<times> int \<times> int) option \<Rightarrow> bool
     \<Rightarrow> 'f draw_op list" where
  "draw_sparkline x y width height data color glow_color fill =
     (if length data < 2 then []
      else
        (let step = real_of_int width / real (length data - 1);
             points = map (\<lambda>(i, val). (real_of_int x + real i * step,
                              real_of_int y + real_of_int height
                                - (val / 100.0 * real_of_int height)))
                        (enumerate 0 data);
             segments = zip points (tl points)
         in (case glow_color of
               None \<Rightarrow> []
             | Some (r, g, b, a) \<Rightarrow>
                 (if length points > 1
                  then map (\<lambda>(p, q). Line [p, q] (r, g, b) 3) segments else []))
            @ (if fill \<and> length points > 1
               then [Polygon ([(real_of_int x, real_of_int (y + height))] @ points
                        @ [(real_of_int (x + width), real_of_int (y + height))])
                       (scale_color 0.3 color)]
               else [])
            @ map (\<lambda>(p, q). Line [p, q] color 2) segments
            @ (if length points > 0
               then (case last points of (px, py) \<Rightarrow>
                       [Ellipse (px - 2, py - 2, px + 2, py + 2) (Some color) None])
               else [])))"

text \<open>\<^verbatim>\<open>draw_status_badge\<close> returns the width of the badge; the model pairs it with
  the calls made.\<close>

definition draw_status_badge ::
  "'f pylib \<Rightarrow> int \<Rightarrow> int \<Rightarrow> string \<Rightarrow> color \<Rightarrow> 'f \<Rightarrow> 'f draw_op list \<times> int" where
  "draw_status_badge lib x y text color font =
     (case getbbox lib font text of (b0, b1, b2, b3) \<Rightarrow>
        (let width = b2 - b0 + 12; height = 16; text_x = x + 6; text_y = y + 2
         in (draw_rounded_rect x y width height 8 color None 1
               @ [Text (text_x, text_y) text font TEXT_PRIMARY],
             width)))"

text \<open>The loop over \<^verbatim>\<open>range(max_screens)\<close> that ends each of the three screens.\<close>

definition screen_indicators :: "nat \<Rightarrow> 'f draw_op list" where
  "screen_indicators cur =
     concat (map (\<lambda>i. (let ind_x = 140 + int i * 15; ind_y = 235 in
                        if i = cur
                        then draw_rounded_rect ind_x ind_y 10 3 1 TEXT_PRIMARY None 1
                        else [Ellipse (ind_x + 3, ind_y, ind_x + 6, ind_y + 3)
                                (Some (60, 60, 70)) None]))
                 [0..<max_screens])"

text \<open>The background gradient, one line per row; the overview screen shifts it by the
  animation phase, the other two screens do not.\<close>

definition gradient_background :: "int \<Rightarrow> 'f draw_op list" where
  "gradient_background gradient_offset =
     map (\<lambda>y. (let factor = real_of_int (y + gradient_offset) / real_of_int HEIGHT;
                    color = interpolate_color (5, 5, 10) (15, 10, 25) factor
                in Line [(0, y), (WIDTH, y)] color 0))
         [0..HEIGHT - 1]"

definition temp_color :: "real \<Rightarrow> color" where
  "temp_color t =
     (if t > 75 then STATUS_ERROR else if t > 65 then STATUS_WARNING else STATUS_ONLINE)"

subsection \<open>The overview screen\<close>

text \<open>
  \<^verbatim>\<open>draw_overview_screen\<close>, section by section in the order of the source. Each
  definition is the list of drawing calls of one commented section of the function; the
  function is their concatenation.
\<close>

definition overview_header_card :: "'f pylib \<Rightarrow> 'f fonts \<Rightarrow> string \<Rightarrow> bool \<Rightarrow> real \<Rightarrow> 'f draw_op list" where
  "overview_header_card lib fonts version is_latest phase =
     draw_rounded_rect 5 5 310 42 8 BG_CARD (Some (50, 50, 70)) 1
     @ (let dot_x = (15::int); dot_y = (15::int);
            pulse = 0.5 + 0.5 * sin (phase * 0.3);
            dot_color = interpolate_color (0, 200, 100) (0, 255, 150) pulse
        in [Ellipse (dot_x, dot_y, dot_x + 8, dot_y + 8) (Some dot_color) None,
            Ellipse (dot_x - 2, dot_y - 2, dot_x + 10, dot_y + 10) None (Some dot_color)])
     @ [Text (28, 8) ''piNAS'' (font_big fonts) TEXT_PRIMARY]
     @ (let version_color = (if is_latest then GRADIENT_SUCCESS ! 1 else GRADIENT_WARNING ! 1);
            version_x = (100::int); version_y = (10::int)
        in (case draw_status_badge lib version_x version_y (''v'' @ version) version_color
                   (font_small fonts) of
              (badge_ops, badge_width) \<Rightarrow>
                badge_ops
                @ (if \<not> is_latest
                   then (let update_x = version_x + badge_width + 5 in
                         [Ellipse (update_x, version_y + 4, update_x + 8, version_y + 12)
                            (Some (GRADIENT_WARNING ! 1)) None,
                          Text (update_x + 12, version_y + 1) ''UPDATE'' (font_tiny fonts)
                            (GRADIENT_WARNING ! 1)])
                   else [])))"

text \<open>The time and date display: the two strings come from \<^verbatim>\<open>datetime.now()\<close>.\<close>

definition overview_clock :: "'f fonts \<Rightarrow> env \<Rightarrow> 'f draw_op list" where
  "overview_clock fonts e =
     (let time_str = strftime_HM (now e); date_str = strftime_dB (now e)
      in [Text (250, 8) time_str (font_big fonts) TEXT_PRIMARY,
          Text (252, 26) date_str (font_tiny fonts) TEXT_SECONDARY])"

definition overview_ip :: "'f fonts \<Rightarrow> stats \<Rightarrow> 'f draw_op list" where
  "overview_ip fonts st =
     [Text (28, 28) (''IP '' @ ip_address st) (font_tiny fonts) TEXT_SECONDARY]"

definition overview_cpu_card :: "'f pylib \<Rightarrow> 'f fonts \<Rightarrow> stats \<Rightarrow> real list \<Rightarrow> 'f draw_op list" where
  "overview_cpu_card lib fonts st history =
     (let card_width = (150::int); card_height = (64::int); cards_start_y = (52::int);
          cpu_x = (5::int); cpu_y = cards_start_y;
          cpu_center_x = cpu_x + 30; cpu_center_y = cpu_y + 38
      in draw_rounded_rect cpu_x cpu_y card_width card_height 6 BG_CARD None 1
         @ [Text (cpu_x + 8, cpu_y + 6) ''CPU'' (font_small fonts) TEXT_SECONDARY]
         @ draw_circular_progress cpu_center_x cpu_center_y 20 (cpu_percent st) COLOR_CPU
             (30, 30, 40) 4
         @ [Text (cpu_center_x - 10, cpu_center_y - 6) (fmt lib 0 (cpu_percent st))
              (font_medium fonts) COLOR_CPU]
         @ draw_sparkline (cpu_x + 65) (cpu_y + 15) 80 40 history COLOR_CPU
             (Some COLOR_CPU_GLOW) True
         @ (case temperature st of
              None \<Rightarrow> []
            | Some t \<Rightarrow>
                (if t = 0 then []
                 else [Text (cpu_x + 65, cpu_y + 6) (fmt lib 0 t @ degree_C) (font_tiny fonts)
                         (temp_color t)])))"

definition overview_memory_card :: "'f pylib \<Rightarrow> 'f fonts \<Rightarrow> stats \<Rightarrow> real list \<Rightarrow> 'f draw_op list" where
  "overview_memory_card lib fonts st history =
     (let card_width = (150::int); card_height = (64::int); cards_start_y = (52::int);
          mem_x = (160::int); mem_y = cards_start_y;
          mem_center_x = mem_x + 30; mem_center_y = mem_y + 38
      in draw_rounded_rect mem_x mem_y card_width card_height 6 BG_CARD None 1
         @ [Text (mem_x + 8, mem_y + 6) ''MEMORY'' (font_small fonts) TEXT_SECONDARY]
         @ draw_circular_progress mem_center_x mem_center_y 20 (memory_percent st) COLOR_MEM
             (30, 30, 40) 4
         @ [Text (mem_center_x - 10, mem_center_y - 6) (fmt lib 0 (memory_percent st))
              (font_medium fonts) COLOR_MEM]
         @ draw_sparkline (mem_x + 65) (mem_y + 15) 80 40 history COLOR_MEM
             (Some COLOR_MEM_GLOW) True
         @ [Text (mem_x + 65, mem_y + 6) (fmt lib 1 (memory_used_gb st) @ ''GB'')
              (font_tiny fonts) TEXT_SECONDARY])"

definition overview_disk_card :: "'f pylib \<Rightarrow> 'f fonts \<Rightarrow> stats \<Rightarrow> real list \<Rightarrow> 'f draw_op list" where
  "overview_disk_card lib fonts st history =
     (let card_width = (150::int); card_height = (64::int); cards_start_y = (52::int);
          disk_x = (5::int); disk_y = cards_start_y + card_height + 5;
          disk_center_x = disk_x + 30; disk_center_y = disk_y + 38
      in draw_rounded_rect disk_x disk_y card_width card_height 6 BG_CARD None 1
         @ [Text (disk_x + 8, disk_y + 6) ''STORAGE'' (font_small fonts) TEXT_SECONDARY]
         @ draw_circular_progress disk_center_x disk_center_y 20 (disk_percent st) COLOR_DISK
             (30, 30, 40) 4
         @ [Text (disk_center_x - 10, disk_center_y - 6) (fmt lib 0 (disk_percent st))
              (font_medium fonts) COLOR_DISK]
         @ draw_sparkline (disk_x + 65) (disk_y + 15) 80 40 history COLOR_DISK
             (Some COLOR_DISK_GLOW) True
         @ [Text (disk_x + 65, disk_y + 6) (fmt lib 0 (disk_used_gb st) @ ''GB'')
              (font_tiny fonts) TEXT_SECONDARY])"

definition overview_network_card :: "'f pylib \<Rightarrow> 'f fonts \<Rightarrow> stats \<Rightarrow> real list \<Rightarrow> 'f draw_op list" where
  "overview_network_card lib fonts st history =
     (let card_width = (150::int); card_height = (64::int); cards_start_y = (52::int);
          net_x = (160::int); net_y = cards_start_y + card_height + 5;
          net_center_x = net_x + 30; net_center_y = net_y + 38;
          net_scaled = min 100 (net_speed_kb st / 10);
          speed_text = (if net_speed_kb st < 1000
                        then fmt lib 0 (net_speed_kb st) @ ''KB/s''
                        else fmt lib 1 (net_speed_kb st / 1024) @ ''MB/s'')
      in draw_rounded_rect net_x net_y card_width card_height 6 BG_CARD None 1
         @ [Text (net_x + 8, net_y + 6) ''NETWORK'' (font_small fonts) TEXT_SECONDARY]
         @ draw_circular_progress net_center_x net_center_y 20 net_scaled COLOR_NET
             (30, 30, 40) 4
         @ [Text (net_center_x - 15, net_center_y - 6) (take 4 speed_text)
              (font_tiny fonts) COLOR_NET]
         @ draw_sparkline (net_x + 65) (net_y + 15) 80 40 history COLOR_NET
             (Some COLOR_NET_GLOW) True)"

text \<open>
  The USB drives section shows the first drive; its status square is the one place where
  this screen calls \<^verbatim>\<open>is_shared\<close>. The parts of the section before and after the
  status square are separate definitions.
\<close>

definition overview_drives_head :: "'f pylib \<Rightarrow> 'f fonts \<Rightarrow> USBDrive list \<Rightarrow> 'f draw_op list" where
  "overview_drives_head lib fonts drives =
     (let drives_y = (191::int) in
      draw_rounded_rect 5 drives_y 310 42 6 BG_CARD None 1
      @ [Text (12, drives_y + 6) ''USB DRIVES'' (font_small fonts) TEXT_SECONDARY]
      @ (if drives \<noteq> []
         then fst (draw_status_badge lib 85 (drives_y + 4) (str_nat (length drives))
                     (GRADIENT_INFO ! 1) (font_tiny fonts))
         else []))"

definition overview_drive_status :: "env \<Rightarrow> USBDrive \<Rightarrow> 'f draw_op list" where
  "overview_drive_status e drive =
     (let drives_y = (191::int); drive_x = (12::int); drive_y = drives_y + 22;
          status_color = (if is_shared e drive then GRADIENT_SUCCESS ! 1 else (60, 60, 70))
      in [Rectangle (drive_x, drive_y, drive_x + 6, drive_y + 6) status_color])"

definition overview_drive_rest :: "'f pylib \<Rightarrow> 'f fonts \<Rightarrow> USBDrive list \<Rightarrow> USBDrive \<Rightarrow> 'f draw_op list" where
  "overview_drive_rest lib fonts drives drive =
     (let drives_y = (191::int); drive_x = (12::int); drive_y = drives_y + 22;
          drive_name = take 20 (name drive);
          bar_x = drive_x + 10; bar_y = drive_y + 12;
          bar_width = (180::int); bar_height = (4::int);
          size_text = format_size lib (used_bytes drive) @ '' / ''
                        @ format_size lib (total_bytes drive)
      in [Text (drive_x + 10, drive_y - 2) drive_name (font_regular fonts) TEXT_PRIMARY]
         @ draw_rounded_rect bar_x bar_y bar_width bar_height 2 (30, 30, 40) None 1
         @ (case usage_fill overview_bar_color bar_width (used_percent drive) of
              None \<Rightarrow> []
            | Some (fill_width, bar_color) \<Rightarrow>
                draw_rounded_rect bar_x bar_y fill_width bar_height 2 bar_color None 1)
         @ [Text (bar_x + bar_width + 5, drive_y + 10) size_text (font_tiny fonts)
              TEXT_SECONDARY]
         @ (if length drives > 1
            then [Text (280, drives_y + 24) (''+'' @ str_nat (length drives - 1))
                    (font_tiny fonts) TEXT_MUTED]
            else []))"

definition overview_drives :: "'f pylib \<Rightarrow> 'f fonts \<Rightarrow> env \<Rightarrow> USBDrive list \<Rightarrow> 'f draw_op list" where
  "overview_drives lib fonts e drives =
     overview_drives_head lib fonts drives
     @ (case drives of
          [] \<Rightarrow> [Text (12, 191 + 20) ''No drives connected'' (font_small fonts) TEXT_MUTED]
        | drive # others \<Rightarrow>
            overview_drive_status e drive @ overview_drive_rest lib fonts drives drive)"

definition draw_overview_screen ::
  "'f pylib \<Rightarrow> 'f fonts \<Rightarrow> env \<Rightarrow> frame_inputs \<Rightarrow> 'f draw_op list" where
  "draw_overview_screen lib fonts e inp =
     gradient_background (py_int (20 * sin (in_animation_phase inp * 0.1)))
     @ overview_header_card lib fonts (in_version inp) (in_is_latest inp)
         (in_animation_phase inp)
     @ overview_clock fonts e
     @ overview_ip fonts (in_stats inp)
     @ overview_cpu_card lib fonts (in_stats inp) (in_cpu_history inp)
     @ overview_memory_card lib fonts (in_stats inp) (in_memory_history inp)
     @ overview_disk_card lib fonts (in_stats inp) (in_disk_history inp)
     @ overview_network_card lib fonts (in_stats inp) (in_network_history inp)
     @ overview_drives lib fonts e (in_drives inp)
     @ screen_indicators (in_current_screen inp)"

subsection \<open>The drives screen\<close>

text \<open>
  One drive card of \<^verbatim>\<open>draw_drives_screen\<close> at height \<open>y\<close>. The card calls
  \<^verbatim>\<open>is_shared\<close> once and \<^verbatim>\<open>get_filesystem_type\<close> once.
\<close>

definition drive_card :: "'f pylib \<Rightarrow> 'f fonts \<Rightarrow> env \<Rightarrow> int \<Rightarrow> USBDrive \<Rightarrow> 'f draw_op list" where
  "drive_card lib fonts e y drive =
     (let card_height = (50::int);
          shared = is_shared e drive;
          status_color = (if shared then GRADIENT_SUCCESS ! 1 else STATUS_ERROR);
          status_text = (if shared then ''SHARED'' else ''PRIVATE'');
          badge_x = (26::int); badge_y = y + 24;
          fs_type = upper (get_filesystem_type e drive);
          bar_x = (180::int); bar_y = y + 15; bar_width = (120::int); bar_height = (20::int);
          percent_text = fmt lib 0 (used_percent drive) @ ''%'';
          text_width = (case getbbox lib (font_small fonts) percent_text of
                          (b0, b1, b2, b3) \<Rightarrow> b2 - b0)
      in draw_rounded_rect 5 y 310 card_height 6 BG_CARD None 1
         @ [Rectangle (12, y + 8, 20, y + 16) status_color,
            Text (26, y + 6) (take 25 (name drive)) (font_medium fonts) TEXT_PRIMARY]
         @ fst (draw_status_badge lib badge_x badge_y status_text status_color (font_tiny fonts))
         @ [Text (badge_x + 65, badge_y + 2) fs_type (font_tiny fonts) TEXT_MUTED]
         @ draw_rounded_rect bar_x bar_y bar_width bar_height 4 (25, 25, 35) None 1
         @ (case usage_fill drives_bar_color bar_width (used_percent drive) of
              None \<Rightarrow> []
            | Some (fill_width, bar_color) \<Rightarrow>
                draw_rounded_rect bar_x bar_y fill_width bar_height 4 bar_color None 1)
         @ [Text (bar_x + (bar_width - text_width) div 2, bar_y + 5) percent_text
              (font_small fonts) TEXT_PRIMARY])"

text \<open>
  The loop \<^verbatim>\<open>for i, drive in enumerate(drives[:3])\<close> with its \<^verbatim>\<open>break\<close>: the
  calls made and the value of \<open>y\<close> when the loop is left.
\<close>

fun drive_cards ::
  "'f pylib \<Rightarrow> 'f fonts \<Rightarrow> env \<Rightarrow> int \<Rightarrow> USBDrive list \<Rightarrow> 'f draw_op list \<times> int" where
  "drive_cards lib fonts e y [] = ([], y)"
| "drive_cards lib fonts e y (drive # rest) =
     (if y > HEIGHT - 60 then ([], y)
      else (case drive_cards lib fonts e (y + 50 + 6) rest of
              (ops, y') \<Rightarrow> (drive_card lib fonts e y drive @ ops, y')))"

definition draw_drives_screen ::
  "'f pylib \<Rightarrow> 'f fonts \<Rightarrow> env \<Rightarrow> frame_inputs \<Rightarrow> 'f draw_op list" where
  "draw_drives_screen lib fonts e inp =
     (let drives = in_drives inp in
      gradient_background 0
      @ draw_rounded_rect 5 5 310 30 6 BG_CARD None 1
      @ [Text (12, 10) ''USB DRIVE MANAGER'' (font_medium fonts) TEXT_PRIMARY]
      @ (if drives = []
         then (let empty_y = (100::int) in
               [Text (WIDTH div 2 - 60, empty_y) ''No USB drives'' (font_big fonts) TEXT_MUTED,
                Text (WIDTH div 2 - 80, empty_y + 25) ''Insert a drive to get started''
                  (font_small fonts) TEXT_MUTED])
         else (case drive_cards lib fonts e 42 (take 3 drives) of
                 (ops, y) \<Rightarrow>
                   ops
                   @ (if length drives > 3
                      then [Text (12, y)
                              (''+ '' @ str_nat (length drives - 3) @ '' more drives'')
                              (font_small fonts) TEXT_MUTED]
                      else [])
                   @ screen_indicators (in_current_screen inp))))"

subsection \<open>The statistics screen\<close>

definition draw_stats_screen :: "'f pylib \<Rightarrow> 'f fonts \<Rightarrow> frame_inputs \<Rightarrow> 'f draw_op list" where
  "draw_stats_screen lib fonts inp =
     (let st = in_stats inp; y0 = (42::int); y1 = y0 + 68; y2 = y1 + 68 in
      gradient_background 0
      @ draw_rounded_rect 5 5 310 30 6 BG_CARD None 1
      @ [Text (12, 10) ''SYSTEM STATISTICS'' (font_medium fonts) TEXT_PRIMARY]
      @ draw_rounded_rect 5 y0 152 60 6 BG_CARD None 1
      @ [Text (12, y0 + 6) ''CPU'' (font_small fonts) TEXT_SECONDARY,
         Text (12, y0 + 22) (fmt lib 1 (cpu_percent st) @ ''%'') (font_big fonts) COLOR_CPU]
      @ (case temperature st of
           None \<Rightarrow> []
         | Some t \<Rightarrow>
             (if t = 0 then []
              else [Text (12, y0 + 42) (fmt lib 1 t @ degree_C) (font_small fonts)
                      (temp_color t)]))
      @ draw_rounded_rect 163 y0 152 60 6 BG_CARD None 1
      @ [Text (170, y0 + 6) ''MEMORY'' (font_small fonts) TEXT_SECONDARY,
         Text (170, y0 + 22) (fmt lib 1 (memory_percent st) @ ''%'') (font_big fonts) COLOR_MEM,
         Text (170, y0 + 42)
           (fmt lib 2 (memory_used_gb st) @ '' / '' @ fmt lib 1 (memory_total_gb st) @ '' GB'')
           (font_tiny fonts) TEXT_SECONDARY]
      @ draw_rounded_rect 5 y1 152 60 6 BG_CARD None 1
      @ [Text (12, y1 + 6) ''STORAGE'' (font_small fonts) TEXT_SECONDARY,
         Text (12, y1 + 22) (fmt lib 1 (disk_percent st) @ ''%'') (font_big fonts) COLOR_DISK,
         Text (12, y1 + 42)
           (fmt lib 1 (disk_used_gb st) @ '' / '' @ fmt lib 1 (disk_total_gb st) @ '' GB'')
           (font_tiny fonts) TEXT_SECONDARY]
      @ draw_rounded_rect 163 y1 152 60 6 BG_CARD None 1
      @ [Text (170, y1 + 6) ''NETWORK'' (font_small fonts) TEXT_SECONDARY]
      @ (let speed_text = (if net_speed_kb st < 1000 then fmt lib 0 (net_speed_kb st)
                           else fmt lib 1 (net_speed_kb st / 1024));
             unit = (if net_speed_kb st < 1000 then ''KB/s'' else ''MB/s'')
         in [Text (170, y1 + 22) speed_text (font_big fonts) COLOR_NET,
             Text (170, y1 + 42) unit (font_tiny fonts) TEXT_SECONDARY])
      @ draw_rounded_rect 5 y2 310 40 6 BG_CARD None 1
      @ [Text (12, y2 + 6) ''IP ADDRESS'' (font_tiny fonts) TEXT_SECONDARY,
         Text (12, y2 + 18) (ip_address st) (font_medium fonts) TEXT_PRIMARY]
      @ screen_indicators (in_current_screen inp))"

subsection \<open>Composing a frame\<close>

text \<open>
  The frame of \<^verbatim>\<open>main\<close>: a fresh image filled with \<^verbatim>\<open>BG_DARK\<close>, drawn on by
  the renderer that \<^verbatim>\<open>current_screen\<close> selects. The model is the pair of the
  background colour and the drawing calls.
\<close>

definition compose_frame ::
  "'f pylib \<Rightarrow> 'f fonts \<Rightarrow> env \<Rightarrow> frame_inputs \<Rightarrow> color \<times> 'f draw_op list" where
  "compose_frame lib fonts e inp =
     (BG_DARK,
      if in_current_screen inp = 0 then draw_overview_screen lib fonts e inp
      else if in_current_screen inp = 1 then draw_drives_screen lib fonts e inp
      else draw_stats_screen lib fonts inp)"

section \<open>Properties\<close>

subsection \<open>History buffer\<close>

lemma pushes_snoc: "pushes c (vs @ [v]) = deque_append c (pushes c vs) v"
  by (simp add: pushes_def)

lemma tl_drop_snoc:
  assumes "k < length vs"
  shows "tl (drop k vs @ [v]) = drop (Suc k) (vs @ [v])"
proof -
  from assms have "drop k vs \<noteq> []" by simp
  then have "tl (drop k vs @ [v]) = tl (drop k vs) @ [v]" by simp
  also have "tl (drop k vs) = drop (Suc k) vs" by (simp add: drop_Suc drop_tl)
  finally show ?thesis using assms by simp
qed

lemma pushes_drop: "pushes c vs = drop (length vs - c) vs"
proof (induction vs rule: rev_induct)
  case Nil
  show ?case by (simp add: pushes_def)
next
  case (snoc v vs)
  show ?case
  proof (cases "c \<le> length vs")
    case False
    then show ?thesis
      by (simp add: pushes_snoc snoc deque_append_def)
  next
    case True
    note le = this
    show ?thesis
    proof (cases "c = 0")
      case True
      with snoc show ?thesis
        by (simp add: pushes_snoc deque_append_def)
    next
      case False
      with le have k: "length vs - c < length vs" by simp
      from le have s: "Suc (length vs) - c = Suc (length vs - c)" by simp
      from le show ?thesis
        by (simp add: pushes_snoc snoc deque_append_def Let_def tl_drop_snoc [OF k] s)
    qed
  qed
qed

text \<open>
  C1. For every capacity (in particular every capacity of at least 1) and every sequence
  of pushed values, the snapshot after all pushes is no longer than the capacity and is
  exactly the last \<open>min capacity (number of pushes)\<close> pushed values, in push order; pushing
  10, 20, 30 into a buffer of capacity 2 leaves [20, 30], and a fourth push of 40 leaves
  [30, 40]. The same holds at the configured capacity \<open>HISTORY_SIZE\<close>.
\<close>

theorem history_buffer_fifo:
  "length (pushes c vs) = min c (length vs)
   \<and> length (pushes c vs) \<le> c
   \<and> pushes c vs = drop (length vs - min c (length vs)) vs
   \<and> pushes 2 [10, 20, 30 :: int] = [20, 30]
   \<and> deque_append 2 (pushes 2 [10, 20, 30 :: int]) 40 = [30, 40]
   \<and> length (pushes HISTORY_SIZE vs) \<le> 100"
proof -
  have d: "pushes c vs = drop (length vs - c) vs" for c :: nat and vs :: "'b list"
    by (rule pushes_drop)
  have e: "length vs - min c (length vs) = length vs - c" by simp
  have "pushes 2 [10, 20, 30 :: int] = [20, 30]" by (simp add: d)
  moreover have "deque_append 2 [20, 30 :: int] 40 = [30, 40]"
    by (simp add: deque_append_def)
  ultimately show ?thesis
    by (simp add: d e HISTORY_SIZE_def min_def)
qed

subsection \<open>Navigation\<close>

text \<open>
  C7. The navigation state starts at screen 0 (Overview). Every accepted touch, whatever
  its coordinates, moves to \<open>(current + 1) mod max_screens\<close>, and \<open>max_screens\<close> is 3:
  from the initial state the first accepted touch gives screen 1 (Drives), the second
  screen 2 (Stats) and the third wraps to screen 0 (Overview).
\<close>

theorem navigation_cycle:
  "(accepted t s \<longrightarrow>
      current_screen (handle_touch t x y d s) = (current_screen s + 1) mod max_screens)
   \<and> max_screens = 3
   \<and> current_screen initial_ui = 0
   \<and> (accepted t1 initial_ui
        \<and> accepted t2 (handle_touch t1 x1 y1 d1 initial_ui)
        \<and> accepted t3 (handle_touch t2 x2 y2 d2 (handle_touch t1 x1 y1 d1 initial_ui))
      \<longrightarrow> current_screen (handle_touch t1 x1 y1 d1 initial_ui) = 1
        \<and> current_screen (handle_touch t2 x2 y2 d2 (handle_touch t1 x1 y1 d1 initial_ui)) = 2
        \<and> current_screen (handle_touch t3 x3 y3 d3
             (handle_touch t2 x2 y2 d2 (handle_touch t1 x1 y1 d1 initial_ui))) = 0)"
  by (simp add: handle_touch_def accepted_def max_screens_def initial_ui_def)

theorem navigation_cycle_witness:
  "accepted 1 initial_ui
   \<and> accepted 2 (handle_touch 1 10 20 () initial_ui)
   \<and> accepted 3 (handle_touch 2 30 40 () (handle_touch 1 10 20 () initial_ui))
   \<and> current_screen (handle_touch 1 10 20 () initial_ui) = 1
   \<and> current_screen (handle_touch 2 30 40 () (handle_touch 1 10 20 () initial_ui)) = 2
   \<and> current_screen (handle_touch 3 50 60 ()
        (handle_touch 2 30 40 () (handle_touch 1 10 20 () initial_ui))) = 0"
proof -
  have a1: "accepted 1 initial_ui"
    by (simp add: accepted_def initial_ui_def touch_debounce_def)
  have a2: "accepted 2 (handle_touch 1 10 20 () initial_ui)"
    by (simp add: accepted_def handle_touch_def initial_ui_def touch_debounce_def)
  have a3: "accepted 3 (handle_touch 2 30 40 () (handle_touch 1 10 20 () initial_ui))"
    by (simp add: accepted_def handle_touch_def initial_ui_def touch_debounce_def)
  from a1 a2 a3
    navigation_cycle [of 1 initial_ui 10 20 "()" 1 2 10 20 "()" 3 30 40 "()" 50 60 "()"]
  show ?thesis by simp
qed

subsection \<open>Debounce\<close>

lemma double_grid_iff: "double_grid t \<longleftrightarrow> (\<exists>k::int. t * 9007199254740992 = real_of_int k)"
  by (simp add: double_grid_def of_int_floor_cancel)

lemma double_grid_diff:
  assumes "double_grid a" and "double_grid b"
  shows "double_grid (a - b)"
proof -
  from assms obtain ka kb :: int
    where "a * 9007199254740992 = real_of_int ka" and "b * 9007199254740992 = real_of_int kb"
    unfolding double_grid_iff by blast
  then have "(a - b) * 9007199254740992 = real_of_int (ka - kb)"
    by (simp add: left_diff_distrib)
  then show ?thesis unfolding double_grid_iff by (rule exI)
qed

lemma double_grid_less:
  assumes "double_grid e"
  shows "(e < touch_debounce) = (e * 9007199254740992 \<le> 1801439850948198)"
    and "(e < double_0_2) = (e * 9007199254740992 \<le> 1801439850948198)"
proof -
  from assms obtain k :: int where k: "e * 9007199254740992 = real_of_int k"
    unfolding double_grid_iff by blast
  then have e: "e = real_of_int k / 9007199254740992" by simp
  have a: "(k * 5 < 9007199254740992) = (k \<le> 1801439850948198)" by presburger
  have b: "(k * 2 < 3602879701896397) = (k \<le> 1801439850948198)" by presburger
  have "(e < touch_debounce) = (real_of_int (k * 5) < real_of_int 9007199254740992)"
    unfolding e touch_debounce_def by (simp add: field_simps)
  also have "\<dots> = (k * 5 < 9007199254740992)" by (simp only: of_int_less_iff)
  also have "\<dots> = (real_of_int k \<le> 1801439850948198)" unfolding a by simp
  finally show "(e < touch_debounce) = (e * 9007199254740992 \<le> 1801439850948198)"
    by (simp only: k)
  have "(e < double_0_2) = (real_of_int (k * 2) < real_of_int 3602879701896397)"
    unfolding e double_0_2_def by (simp add: field_simps)
  also have "\<dots> = (k * 2 < 3602879701896397)" by (simp only: of_int_less_iff)
  also have "\<dots> = (real_of_int k \<le> 1801439850948198)" unfolding b by simp
  finally show "(e < double_0_2) = (e * 9007199254740992 \<le> 1801439850948198)"
    by (simp only: k)
qed

lemma double_grid_not_debounce:
  assumes "double_grid e"
  shows "e \<noteq> touch_debounce"
proof
  assume "e = touch_debounce"
  with assms have "double_grid (1 / 5)" by (simp add: touch_debounce_def)
  then obtain k :: int where "(1 / 5) * 9007199254740992 = real_of_int k"
    unfolding double_grid_iff by blast
  then have "real_of_int (k * 5) = real_of_int 9007199254740992" by simp
  then have "k * 5 = 9007199254740992" by (simp only: of_int_eq_iff)
  then show False by presburger
qed

text \<open>
  C4. A touch that arrives less than the debounce interval after the last accepted touch
  is dropped entirely: the handler returns the state as it was, current screen and last
  touch time both unchanged (the state holds no queue, so nothing is queued or merged).
  In particular, of two touches less than the interval apart the first of which was
  accepted, the second leaves the state of the first. A touch is accepted only when the
  elapsed time since the last accepted touch exceeds the interval: the times are doubles,
  the elapsed time between two of them is never equal to the interval, and comparing it
  with 0.2 is comparing it with the double that \<^verbatim>\<open>0.2\<close> denotes. An accepted touch
  moves to the next screen and becomes the last accepted touch.
\<close>

theorem debounce_drops_within_interval:
  "(current_time - last_touch_time s < touch_debounce \<longrightarrow>
      handle_touch current_time x y d s = s)
   \<and> (accepted t1 s \<and> t2 - t1 < touch_debounce \<longrightarrow>
        handle_touch t2 x2 y2 d2 (handle_touch t1 x1 y1 d1 s) = handle_touch t1 x1 y1 d1 s)
   \<and> (double_grid current_time \<and> double_grid (last_touch_time s) \<and> accepted current_time s
        \<longrightarrow> touch_debounce < current_time - last_touch_time s)
   \<and> (double_grid current_time \<and> double_grid (last_touch_time s) \<longrightarrow>
        (current_time - last_touch_time s < touch_debounce)
          = (current_time - last_touch_time s < double_0_2))
   \<and> (accepted current_time s \<longrightarrow>
        handle_touch current_time x y d s
          = \<lparr>current_screen = (current_screen s + 1) mod max_screens,
             last_touch_time = current_time\<rparr>)"
proof (intro conjI impI)
  show "handle_touch current_time x y d s = s"
    if "current_time - last_touch_time s < touch_debounce"
    using that by (simp add: handle_touch_def)
  show "handle_touch t2 x2 y2 d2 (handle_touch t1 x1 y1 d1 s) = handle_touch t1 x1 y1 d1 s"
    if "accepted t1 s \<and> t2 - t1 < touch_debounce"
    using that by (simp add: accepted_def handle_touch_def)
  show "touch_debounce < current_time - last_touch_time s"
    if h: "double_grid current_time \<and> double_grid (last_touch_time s)
             \<and> accepted current_time s"
  proof -
    from h have "double_grid (current_time - last_touch_time s)"
      by (simp add: double_grid_diff)
    then have "current_time - last_touch_time s \<noteq> touch_debounce"
      by (rule double_grid_not_debounce)
    moreover from h have "touch_debounce \<le> current_time - last_touch_time s"
      by (simp add: accepted_def)
    ultimately show ?thesis by simp
  qed
  show "(current_time - last_touch_time s < touch_debounce)
          = (current_time - last_touch_time s < double_0_2)"
    if h: "double_grid current_time \<and> double_grid (last_touch_time s)"
  proof -
    from h have g: "double_grid (current_time - last_touch_time s)"
      by (simp add: double_grid_diff)
    show ?thesis
      by (simp only: double_grid_less [OF g])
  qed
  show "handle_touch current_time x y d s
          = \<lparr>current_screen = (current_screen s + 1) mod max_screens,
             last_touch_time = current_time\<rparr>"
    if "accepted current_time s"
    using that by (simp add: accepted_def handle_touch_def)
qed

theorem debounce_drops_within_interval_witness:
  "10.125 - last_touch_time \<lparr>current_screen = 1, last_touch_time = 10\<rparr> < touch_debounce
   \<and> handle_touch 10.125 5 6 () \<lparr>current_screen = 1, last_touch_time = 10\<rparr>
       = \<lparr>current_screen = 1, last_touch_time = 10\<rparr>
   \<and> double_grid 10.25
   \<and> double_grid (last_touch_time \<lparr>current_screen = 1, last_touch_time = 10\<rparr>)
   \<and> accepted 10.25 \<lparr>current_screen = 1, last_touch_time = 10\<rparr>
   \<and> touch_debounce < 10.25 - last_touch_time \<lparr>current_screen = 1, last_touch_time = 10\<rparr>
   \<and> handle_touch 10.25 5 6 () \<lparr>current_screen = 1, last_touch_time = 10\<rparr>
       = \<lparr>current_screen = (1 + 1) mod max_screens, last_touch_time = 10.25\<rparr>
   \<and> (10.375 - 10.25 :: real) < touch_debounce
   \<and> handle_touch 10.375 7 8 ()
        (handle_touch 10.25 5 6 () \<lparr>current_screen = 1, last_touch_time = 10\<rparr>)
       = handle_touch 10.25 5 6 () \<lparr>current_screen = 1, last_touch_time = 10\<rparr>"
proof -
  let ?s = "\<lparr>current_screen = 1, last_touch_time = 10\<rparr>"
  note early = debounce_drops_within_interval [where current_time = "10.125" and s = "?s"
      and x = 5 and y = 6 and d = "()"]
  note late = debounce_drops_within_interval [where current_time = "10.25" and s = "?s"
      and x = 5 and y = 6 and d = "()" and ?t1.0 = "10.25" and ?t2.0 = "10.375"
      and ?x1.0 = 5 and ?y1.0 = 6 and ?d1.0 = "()" and ?x2.0 = 7 and ?y2.0 = 8
      and ?d2.0 = "()"]
  have h1: "10.125 - last_touch_time ?s < touch_debounce"
    by (simp add: touch_debounce_def)
  have g1: "double_grid 10.25" and g2: "double_grid (last_touch_time ?s)"
    by (simp_all add: double_grid_def)
  have h2: "accepted 10.25 ?s"
    by (simp add: accepted_def touch_debounce_def)
  have h3: "(10.375 - 10.25 :: real) < touch_debounce"
    by (simp add: touch_debounce_def)
  have a: "handle_touch 10.125 5 6 () ?s = ?s"
    by (rule mp [OF early [THEN conjunct1] h1])
  have b: "handle_touch 10.375 7 8 () (handle_touch 10.25 5 6 () ?s)
             = handle_touch 10.25 5 6 () ?s"
    by (rule mp [OF late [THEN conjunct2, THEN conjunct1] conjI [OF h2 h3]])
  have c: "touch_debounce < 10.25 - last_touch_time ?s"
    by (rule mp [OF late [THEN conjunct2, THEN conjunct2, THEN conjunct1]
          conjI [OF g1 conjI [OF g2 h2]]])
  have e: "handle_touch 10.25 5 6 () ?s
             = \<lparr>current_screen = (current_screen ?s + 1) mod max_screens,
                last_touch_time = 10.25\<rparr>"
    by (rule mp [OF late [THEN conjunct2, THEN conjunct2, THEN conjunct2, THEN conjunct2] h2])
  have e': "handle_touch 10.25 5 6 () ?s
             = \<lparr>current_screen = (1 + 1) mod max_screens, last_touch_time = 10.25\<rparr>"
    using e by simp
  show ?thesis
    by (intro conjI) (rule h1 a g1 g2 h2 c e' h3 b)+
qed

subsection \<open>Usage bar\<close>

lemmas palette_defs = STATUS_WARNING_def STATUS_ERROR_def GRADIENT_INFO_def
  COLOR_ERROR_def COLOR_WARNING_def COLOR_INFO_def

text \<open>
  C5, as stated, fails at the two thresholds: the comparisons are strict, so a drive at
  exactly 90 percent is drawn in the warning colour, not the error colour, and a drive at
  exactly 75 percent in the info colour, not the warning colour.
\<close>

theorem usage_bar_counterexample:
  "drives_bar_color 90 = STATUS_WARNING
   \<and> drives_bar_color 90 \<noteq> STATUS_ERROR
   \<and> drives_bar_color 75 = GRADIENT_INFO ! 1
   \<and> drives_bar_color 75 \<noteq> STATUS_WARNING"
  by (simp add: drives_bar_color_def STATUS_WARNING_def STATUS_ERROR_def GRADIENT_INFO_def)

text \<open>
  C5, amended. The fill colour of a usage bar follows one three-tier policy with strict
  thresholds: above 90 percent the error colour, above 75 and up to 90 the warning colour,
  up to 75 the info colour. The drives screen and the overview screen of the masterpiece
  variant compute the same colour, and the redesigned variant picks the same tier over its
  own palette. The fill is drawn only when the percentage is positive, with width
  \<open>int(bar_width * used_percent / 100)\<close>; for a bar 120 wide, 92 percent gives the error
  colour, 80 the warning colour and 50 the info colour.
\<close>

theorem usage_bar_amended:
  "(90 < p \<longrightarrow> drives_bar_color p = STATUS_ERROR)
   \<and> (75 < p \<and> p \<le> 90 \<longrightarrow> drives_bar_color p = STATUS_WARNING)
   \<and> (p \<le> 75 \<longrightarrow> drives_bar_color p = GRADIENT_INFO ! 1)
   \<and> overview_bar_color p = drives_bar_color p
   \<and> (redesigned_bar_color p = COLOR_ERROR \<longleftrightarrow> drives_bar_color p = STATUS_ERROR)
   \<and> (redesigned_bar_color p = COLOR_WARNING \<longleftrightarrow> drives_bar_color p = STATUS_WARNING)
   \<and> (redesigned_bar_color p = COLOR_INFO \<longleftrightarrow> drives_bar_color p = GRADIENT_INFO ! 1)
   \<and> (0 < p \<longrightarrow> usage_fill drives_bar_color w p
          = Some (py_int (real_of_int w * p / 100), drives_bar_color p))
   \<and> (p \<le> 0 \<longrightarrow> usage_fill drives_bar_color w p = None)
   \<and> usage_fill drives_bar_color 120 92 = Some (110, STATUS_ERROR)
   \<and> usage_fill drives_bar_color 120 80 = Some (96, STATUS_WARNING)
   \<and> usage_fill drives_bar_color 120 50 = Some (60, GRADIENT_INFO ! 1)"
proof (intro conjI)
  show "90 < p \<longrightarrow> drives_bar_color p = STATUS_ERROR"
    and "75 < p \<and> p \<le> 90 \<longrightarrow> drives_bar_color p = STATUS_WARNING"
    and "p \<le> 75 \<longrightarrow> drives_bar_color p = GRADIENT_INFO ! 1"
    by (simp_all add: drives_bar_color_def)
  show "overview_bar_color p = drives_bar_color p"
    by (simp add: overview_bar_color_def drives_bar_color_def)
  show "redesigned_bar_color p = COLOR_ERROR \<longleftrightarrow> drives_bar_color p = STATUS_ERROR"
    and "redesigned_bar_color p = COLOR_WARNING \<longleftrightarrow> drives_bar_color p = STATUS_WARNING"
    and "redesigned_bar_color p = COLOR_INFO \<longleftrightarrow> drives_bar_color p = GRADIENT_INFO ! 1"
    by (simp_all add: redesigned_bar_color_def drives_bar_color_def palette_defs)
  show "0 < p \<longrightarrow> usage_fill drives_bar_color w p
          = Some (py_int (real_of_int w * p / 100), drives_bar_color p)"
    and "p \<le> 0 \<longrightarrow> usage_fill drives_bar_color w p = None"
    by (simp_all add: usage_fill_def)
  show "usage_fill drives_bar_color 120 92 = Some (110, STATUS_ERROR)"
    and "usage_fill drives_bar_color 120 80 = Some (96, STATUS_WARNING)"
    and "usage_fill drives_bar_color 120 50 = Some (60, GRADIENT_INFO ! 1)"
    by (simp_all add: usage_fill_def drives_bar_color_def py_int_def)
qed

theorem usage_bar_amended_witness:
  "(90::real) < 92 \<and> drives_bar_color 92 = STATUS_ERROR
   \<and> (75::real) < 80 \<and> (80::real) \<le> 90 \<and> drives_bar_color 80 = STATUS_WARNING
   \<and> (50::real) \<le> 75 \<and> drives_bar_color 50 = GRADIENT_INFO ! 1
   \<and> (0::real) < 92
   \<and> usage_fill drives_bar_color 120 92
        = Some (py_int (real_of_int 120 * 92 / 100), drives_bar_color 92)
   \<and> (0::real) \<le> 0
   \<and> usage_fill drives_bar_color 120 0 = None"
proof -
  have a: "drives_bar_color 92 = STATUS_ERROR"
    using usage_bar_amended [of 92 120] by simp
  have b: "drives_bar_color 80 = STATUS_WARNING"
    using usage_bar_amended [of 80 120] by simp
  have c: "drives_bar_color 50 = GRADIENT_INFO ! 1"
    using usage_bar_amended [of 50 120] by simp
  have d: "usage_fill drives_bar_color 120 92
             = Some (py_int (real_of_int 120 * 92 / 100), drives_bar_color 92)"
    using usage_bar_amended [of 92 120] by simp
  have e: "usage_fill drives_bar_color 120 0 = None"
    using usage_bar_amended [of 0 120] by simp
  from a b c d e show ?thesis by simp
qed

subsection \<open>Circular progress\<close>

lemma progress_angle_floor:
  "0 \<le> percent \<Longrightarrow> progress_angle percent = \<lfloor>360 * percent / 100\<rfloor>"
  by (simp add: progress_angle_def py_int_def)

text \<open>
  C6, as stated, fails wherever \<open>360 * percent / 100\<close> is not a whole number: the
  source truncates the angle to an integer. At 0.5 percent the foreground arc runs from
  \<open>-90\<close> to \<open>-89\<close>, a sweep of 1 degree, not 1.8.
\<close>

theorem circular_progress_counterexample:
  "draw_circular_progress 35 90 20 0.5 (255, 90, 120) (30, 30, 40) 4
     = [Arc (15, 70, 55, 110) 0 360 (30, 30, 40) 4,
        Arc (15, 70, 55, 110) (-90) (-89) (255, 90, 120) 4 :: unit draw_op]
   \<and> progress_angle 0.5 = 1
   \<and> real_of_int (progress_angle 0.5) \<noteq> 360 * 0.5 / 100"
  by (simp add: draw_circular_progress_def progress_angle_def py_int_def)

text \<open>
  C6, amended. The indicator always draws the background ring (a full arc, 0 to 360). For
  a positive percentage it then draws the foreground arc over the same box from \<open>-90\<close>
  (the top) to \<open>-90 + angle\<close>, clockwise, where \<open>angle\<close> is \<open>360 * percent / 100\<close>
  truncated to whole degrees: at most \<open>360 * percent / 100\<close>, less than one degree below
  it, equal to it when that is a whole number, and between 0 and 360 for a percentage up
  to 100. For a percentage of 0 or less only the background ring is drawn. At 25 percent
  the foreground arc runs from \<open>-90\<close> to \<open>0\<close>: 90 degrees from the top to 3 o'clock.
\<close>

theorem circular_progress_amended:
  "(0 < percent \<longrightarrow>
      (draw_circular_progress cx cy radius percent color bg_color thickness :: 'f draw_op list)
        = [Arc (cx - radius, cy - radius, cx + radius, cy + radius) 0 360 bg_color thickness,
           Arc (cx - radius, cy - radius, cx + radius, cy + radius)
             (-90) (-90 + progress_angle percent) color thickness]
      \<and> progress_angle percent = \<lfloor>360 * percent / 100\<rfloor>
      \<and> real_of_int (progress_angle percent) \<le> 360 * percent / 100
      \<and> 360 * percent / 100 < real_of_int (progress_angle percent) + 1)
   \<and> (0 < percent \<and> percent \<le> 100 \<longrightarrow>
        0 \<le> progress_angle percent \<and> progress_angle percent \<le> 360)
   \<and> (0 < percent \<and> 360 * percent / 100 \<in> \<int> \<longrightarrow>
        real_of_int (progress_angle percent) = 360 * percent / 100)
   \<and> (percent \<le> 0 \<longrightarrow>
        (draw_circular_progress cx cy radius percent color bg_color thickness :: 'f draw_op list)
          = [Arc (cx - radius, cy - radius, cx + radius, cy + radius) 0 360 bg_color thickness])
   \<and> (draw_circular_progress cx cy radius 25 color bg_color thickness :: 'f draw_op list)
        = [Arc (cx - radius, cy - radius, cx + radius, cy + radius) 0 360 bg_color thickness,
           Arc (cx - radius, cy - radius, cx + radius, cy + radius) (-90) 0 color thickness]"
proof (intro conjI impI)
  assume p: "0 < percent"
  then have f: "progress_angle percent = \<lfloor>360 * percent / 100\<rfloor>"
    by (simp add: progress_angle_floor)
  from p show "(draw_circular_progress cx cy radius percent color bg_color thickness
                  :: 'f draw_op list)
        = [Arc (cx - radius, cy - radius, cx + radius, cy + radius) 0 360 bg_color thickness,
           Arc (cx - radius, cy - radius, cx + radius, cy + radius)
             (-90) (-90 + progress_angle percent) color thickness]"
    by (simp add: draw_circular_progress_def)
  show "progress_angle percent = \<lfloor>360 * percent / 100\<rfloor>" by (rule f)
  show "real_of_int (progress_angle percent) \<le> 360 * percent / 100"
    unfolding f by (rule of_int_floor_le)
  show "360 * percent / 100 < real_of_int (progress_angle percent) + 1"
    unfolding f by linarith
next
  assume p: "0 < percent \<and> percent \<le> 100"
  then have f: "progress_angle percent = \<lfloor>360 * percent / 100\<rfloor>"
    by (simp add: progress_angle_floor)
  from p have "0 \<le> 360 * percent / 100" by simp
  then show "0 \<le> progress_angle percent" unfolding f by simp
  from p have "360 * percent / 100 \<le> 360" by simp
  then have "\<lfloor>360 * percent / 100\<rfloor> \<le> \<lfloor>360::real\<rfloor>" by (rule floor_mono)
  then show "progress_angle percent \<le> 360" unfolding f by simp
next
  assume p: "0 < percent \<and> 360 * percent / 100 \<in> \<int>"
  then have f: "progress_angle percent = \<lfloor>360 * percent / 100\<rfloor>"
    by (simp add: progress_angle_floor)
  from p show "real_of_int (progress_angle percent) = 360 * percent / 100"
    unfolding f by (simp add: of_int_floor)
next
  assume "percent \<le> 0"
  then show "(draw_circular_progress cx cy radius percent color bg_color thickness
                :: 'f draw_op list)
          = [Arc (cx - radius, cy - radius, cx + radius, cy + radius) 0 360 bg_color thickness]"
    by (simp add: draw_circular_progress_def)
next
  show "(draw_circular_progress cx cy radius 25 color bg_color thickness :: 'f draw_op list)
        = [Arc (cx - radius, cy - radius, cx + radius, cy + radius) 0 360 bg_color thickness,
           Arc (cx - radius, cy - radius, cx + radius, cy + radius) (-90) 0 color thickness]"
    by (simp add: draw_circular_progress_def progress_angle_def py_int_def)
qed

theorem circular_progress_amended_witness:
  "(0::real) < 25 \<and> (25::real) \<le> 100 \<and> 360 * (25::real) / 100 \<in> \<int>
   \<and> (draw_circular_progress 35 90 20 25 (255, 90, 120) (30, 30, 40) 4 :: unit draw_op list)
        = [Arc (15, 70, 55, 110) 0 360 (30, 30, 40) 4,
           Arc (15, 70, 55, 110) (-90) (-90 + progress_angle 25) (255, 90, 120) 4]
   \<and> real_of_int (progress_angle 25) = 90
   \<and> (0::real) \<le> 0
   \<and> (draw_circular_progress 35 90 20 0 (255, 90, 120) (30, 30, 40) 4 :: unit draw_op list)
        = [Arc (15, 70, 55, 110) 0 360 (30, 30, 40) 4]"
proof -
  have i: "360 * (25::real) / 100 \<in> \<int>"
  proof -
    have "360 * (25::real) / 100 = of_int 90" by simp
    then show ?thesis by (simp only: Ints_of_int)
  qed
  note t = circular_progress_amended [where percent = 25 and cx = 35 and cy = 90
      and radius = 20 and color = "(255, 90, 120)" and bg_color = "(30, 30, 40)"
      and thickness = 4 and 'f = unit]
  note z = circular_progress_amended [where percent = 0 and cx = 35 and cy = 90
      and radius = 20 and color = "(255, 90, 120)" and bg_color = "(30, 30, 40)"
      and thickness = 4 and 'f = unit]
  have a: "(draw_circular_progress 35 90 20 25 (255, 90, 120) (30, 30, 40) 4
              :: unit draw_op list)
        = [Arc (15, 70, 55, 110) 0 360 (30, 30, 40) 4,
           Arc (15, 70, 55, 110) (-90) (-90 + progress_angle 25) (255, 90, 120) 4]"
    using t by simp
  have b: "real_of_int (progress_angle 25) = 90"
    using t i by simp
  have c: "(draw_circular_progress 35 90 20 0 (255, 90, 120) (30, 30, 40) 4
              :: unit draw_op list)
        = [Arc (15, 70, 55, 110) 0 360 (30, 30, 40) 4]"
    using z by simp
  from i a b c show ?thesis by simp
qed

subsection \<open>Network history\<close>

lemma set_deque_append: "set (deque_append c d v) \<subseteq> insert v (set d)"
proof -
  have "set (tl (d @ [v])) \<subseteq> set (d @ [v])" by (cases "d @ [v]") auto
  then show ?thesis by (auto simp add: deque_append_def Let_def)
qed

lemma network_sample_le: "network_sample r \<le> 100"
  by (simp add: network_sample_def)

lemma network_sample_sign: "(0 \<le> network_sample r) = (0 \<le> r)"
  by (simp add: network_sample_def min_def)

lemma network_run_pushes:
  "foldl network_history_update [] rates = pushes HISTORY_SIZE (map network_sample rates)"
proof -
  have "foldl network_history_update h rates
          = foldl (deque_append HISTORY_SIZE) h (map network_sample rates)" for h
    by (induction rates arbitrary: h) (simp_all add: network_history_update_def)
  then show ?thesis by (simp add: pushes_def)
qed

lemma set_pushes: "set (pushes c vs) \<subseteq> set vs"
  by (simp add: pushes_drop set_drop_subset)

text \<open>
  C9, as stated, fails. In the masterpiece and redesigned variants the appended value is
  \<open>min(100, net_speed_kb / 10)\<close>, capped above only: when the byte counters read lower
  than at the previous call (here 20480 bytes less after one second) the rate is negative
  and so is the value appended. In the new-dashboard variant the appended value is neither
  scaled nor capped: with a history of [0] and counters summing to 1024000 it is 2000.
\<close>

theorem network_history_counterexample:
  "net_speed (Some (20480, 0, 0)) 0 0 1 1 = (- 20, Some (0, 0, 1))
   \<and> network_history_update [] (- 20) = [- 2]
   \<and> \<not> (0 \<le> (- 2 :: real))
   \<and> new_dashboard_network_update [0] (Inr 1024000) = [0, 2000]
   \<and> \<not> ((2000 :: real) \<le> 100)"
  by (simp add: net_speed_def network_history_update_def network_sample_def
      deque_append_def HISTORY_SIZE_def new_dashboard_network_update_def)

text \<open>
  C9, amended. In the masterpiece and redesigned variants every value appended to the
  network history is \<open>min(100, net_speed_kb / 10)\<close>: it is at most 100 whatever the
  rate, and it is at least 0 exactly when the rate is; there is no lower clamp. So after
  every run of poll ticks all values in the network series are at most 100 and the series
  is no longer than \<open>HISTORY_SIZE\<close>, and they lie in 0..100 when no rate was negative.
  The rate is 0 on the first call and non-negative whenever neither byte counter has
  decreased since the previous call. (The new-dashboard variant stores unscaled values.)
\<close>

theorem network_history_amended:
  "network_sample r \<le> 100
   \<and> (0 \<le> r \<longrightarrow> 0 \<le> network_sample r)
   \<and> (r < 0 \<longrightarrow> network_sample r < 0)
   \<and> (\<forall>v \<in> set (foldl network_history_update [] rates). v \<le> 100)
   \<and> ((\<forall>r \<in> set rates. 0 \<le> r) \<longrightarrow>
        (\<forall>v \<in> set (foldl network_history_update [] rates). 0 \<le> v \<and> v \<le> 100))
   \<and> length (foldl network_history_update [] rates) \<le> HISTORY_SIZE
   \<and> fst (net_speed None bytes_sent bytes_recv t1 t2) = 0
   \<and> (last_sent \<le> bytes_sent \<and> last_recv \<le> bytes_recv \<longrightarrow>
        0 \<le> fst (net_speed (Some (last_sent, last_recv, last_time)) bytes_sent bytes_recv t1 t2))"
proof (intro conjI impI ballI)
  show "network_sample r \<le> 100" by (rule network_sample_le)
  show "0 \<le> network_sample r" if "0 \<le> r" using that by (simp add: network_sample_sign)
  show "network_sample r < 0" if "r < 0"
    using that network_sample_sign [of r] by simp
  show "v \<le> 100" if "v \<in> set (foldl network_history_update [] rates)" for v
  proof -
    from that set_pushes [of HISTORY_SIZE "map network_sample rates"]
    have "v \<in> set (map network_sample rates)" by (auto simp add: network_run_pushes)
    then show ?thesis by (auto simp add: network_sample_le)
  qed
  show "0 \<le> v" if "\<forall>r \<in> set rates. 0 \<le> r"
    and "v \<in> set (foldl network_history_update [] rates)" for v
  proof -
    from that(2) set_pushes [of HISTORY_SIZE "map network_sample rates"]
    have "v \<in> set (map network_sample rates)" by (auto simp add: network_run_pushes)
    with that(1) show ?thesis by (auto simp add: network_sample_sign)
  qed
  show "v \<le> 100" if "\<forall>r \<in> set rates. 0 \<le> r"
    and "v \<in> set (foldl network_history_update [] rates)" for v
  proof -
    from that(2) set_pushes [of HISTORY_SIZE "map network_sample rates"]
    have "v \<in> set (map network_sample rates)" by (auto simp add: network_run_pushes)
    then show ?thesis by (auto simp add: network_sample_le)
  qed
  show "length (foldl network_history_update [] rates) \<le> HISTORY_SIZE"
    by (simp add: network_run_pushes pushes_drop)
  show "fst (net_speed None bytes_sent bytes_recv t1 t2) = 0"
    by (simp add: net_speed_def)
  show "0 \<le> fst (net_speed (Some (last_sent, last_recv, last_time)) bytes_sent bytes_recv t1 t2)"
    if "last_sent \<le> bytes_sent \<and> last_recv \<le> bytes_recv"
    using that by (simp add: net_speed_def Let_def)
qed


theorem network_history_amended_witness:
  "(0::real) \<le> 250 \<and> 0 \<le> network_sample 250 \<and> network_sample 250 \<le> 100
   \<and> (0::real) \<le> 0 \<and> (0::real) \<le> 5000
   \<and> 0 \<le> last (foldl network_history_update [] [0, 250, 5000])
   \<and> last (foldl network_history_update [] [0, 250, 5000]) \<le> 100
   \<and> (1000::int) \<le> 3000 \<and> (500::int) \<le> 500
   \<and> 0 \<le> fst (net_speed (Some (1000, 500, 10)) 3000 500 11 11)"
proof -
  note t = network_history_amended [where r = 250 and rates = "[0, 250, 5000]"
      and last_sent = 1000 and last_recv = 500 and last_time = 10
      and bytes_sent = 3000 and bytes_recv = 500 and ?t1.0 = 11 and ?t2.0 = 11]
  have run: "foldl network_history_update [] [0, 250, 5000] = [0, 25, 100]"
    by (simp add: network_history_update_def network_sample_def deque_append_def
        HISTORY_SIZE_def)
  have mem: "last (foldl network_history_update [] [0, 250, 5000])
               \<in> set (foldl network_history_update [] [0, 250, 5000])"
    unfolding run by simp
  have nonneg: "\<forall>r \<in> set [0, 250, 5000 :: real]. 0 \<le> r" by simp
  from t have imp: "(\<forall>r \<in> set [0, 250, 5000 :: real]. 0 \<le> r) \<longrightarrow>
      (\<forall>v \<in> set (foldl network_history_update [] [0, 250, 5000]). 0 \<le> v \<and> v \<le> 100)"
    by (elim conjE) assumption
  from imp nonneg have all: "\<forall>v \<in> set (foldl network_history_update [] [0, 250, 5000]).
      0 \<le> v \<and> v \<le> 100" by (rule mp)
  from all mem have a: "0 \<le> last (foldl network_history_update [] [0, 250, 5000])
     \<and> last (foldl network_history_update [] [0, 250, 5000]) \<le> 100" by (rule bspec)
  from t have b: "0 \<le> network_sample 250 \<and> network_sample 250 \<le> 100" by simp
  from t have c: "0 \<le> fst (net_speed (Some (1000, 500, 10)) 3000 500 11 11)" by simp
  from a b c show ?thesis by simp
qed

subsection \<open>Touch calibration\<close>

lemma clamp_to_screen_None [simp]: "clamp_to_screen None sy = Inl UnboundLocalError"
  by (simp add: clamp_to_screen_def)

lemma clamp_to_screen_Some:
  "clamp_to_screen (Some sx) (Some sy)
     = Inr (Some (max 0 (min (WIDTH - 1) sx), max 0 (min (HEIGHT - 1) sy)))"
  by (simp add: clamp_to_screen_def)

text \<open>
  C3. With either driver profile, \<^verbatim>\<open>map_touch\<close> returns \<open>None\<close> when the sensor
  reports no contact (\<^verbatim>\<open>touched\<close> false for the STMPE610, \<^verbatim>\<open>touch_point\<close>
  \<open>None\<close> for the XPT2046) and when a sensor read raises (any of \<^verbatim>\<open>touched\<close>,
  \<^verbatim>\<open>read_data()\<close>, or either reading of \<^verbatim>\<open>touch_point\<close>). A point is
  returned only when the sensor reported contact and the coordinates were read, and the
  point then lies on the screen; so absence is never reported as a point, \<open>(0, 0)\<close>
  included.
\<close>

theorem map_touch_absent:
  "(driver = Some ''STMPE610'' \<and> touched touch = Inr False \<longrightarrow> map_touch touch driver = None)
   \<and> (driver = Some ''XPT2046'' \<and> touch_point touch = Inr None \<longrightarrow>
        map_touch touch driver = None)
   \<and> (driver = Some ''STMPE610'' \<and> touched touch = Inl e \<longrightarrow> map_touch touch driver = None)
   \<and> (driver = Some ''STMPE610'' \<and> read_data touch = Inl e \<longrightarrow> map_touch touch driver = None)
   \<and> (driver = Some ''XPT2046'' \<and> touch_point touch = Inl e \<longrightarrow> map_touch touch driver = None)
   \<and> (driver = Some ''XPT2046'' \<and> touch_point_again touch = Inl e \<longrightarrow>
        map_touch touch driver = None)
   \<and> (map_touch touch driver = Some p \<longrightarrow>
        (driver = Some ''STMPE610'' \<and> touched touch = Inr True
           \<and> (\<exists>x_raw y_raw z. read_data touch = Inr (x_raw, y_raw, z)))
        \<or> (driver = Some ''XPT2046'' \<and> (\<exists>q. touch_point touch = Inr (Some q))
           \<and> (\<exists>x_raw y_raw. touch_point_again touch = Inr (Some (x_raw, y_raw)))))
   \<and> (map_touch touch driver = Some p \<longrightarrow>
        0 \<le> fst p \<and> fst p \<le> WIDTH - 1 \<and> 0 \<le> snd p \<and> snd p \<le> HEIGHT - 1)"
proof (intro conjI impI)
  show "map_touch touch driver = None"
    if "driver = Some ''STMPE610'' \<and> touched touch = Inr False"
    using that by (simp add: map_touch_def map_touch_body_def)
  show "map_touch touch driver = None"
    if "driver = Some ''XPT2046'' \<and> touch_point touch = Inr None"
    using that by (simp add: map_touch_def map_touch_body_def)
  show "map_touch touch driver = None"
    if "driver = Some ''STMPE610'' \<and> touched touch = Inl e"
    using that by (simp add: map_touch_def map_touch_body_def)
  show "map_touch touch driver = None"
    if "driver = Some ''STMPE610'' \<and> read_data touch = Inl e"
    using that by (simp add: map_touch_def map_touch_body_def split: sum.split)
  show "map_touch touch driver = None"
    if "driver = Some ''XPT2046'' \<and> touch_point touch = Inl e"
    using that by (simp add: map_touch_def map_touch_body_def)
  show "map_touch touch driver = None"
    if "driver = Some ''XPT2046'' \<and> touch_point_again touch = Inl e"
    using that by (simp add: map_touch_def map_touch_body_def split: sum.split option.split)
  show "(driver = Some ''STMPE610'' \<and> touched touch = Inr True
           \<and> (\<exists>x_raw y_raw z. read_data touch = Inr (x_raw, y_raw, z)))
        \<or> (driver = Some ''XPT2046'' \<and> (\<exists>q. touch_point touch = Inr (Some q))
           \<and> (\<exists>x_raw y_raw. touch_point_again touch = Inr (Some (x_raw, y_raw))))"
    if "map_touch touch driver = Some p"
    using that
    by (auto simp add: map_touch_def map_touch_body_def
        split: if_splits sum.splits option.splits prod.splits)
  show "0 \<le> fst p" "fst p \<le> WIDTH - 1" "0 \<le> snd p" "snd p \<le> HEIGHT - 1"
    if "map_touch touch driver = Some p"
    using that
    by (auto simp add: map_touch_def map_touch_body_def clamp_to_screen_Some
        WIDTH_def HEIGHT_def
        split: if_splits sum.splits option.splits prod.splits)
qed


theorem map_touch_absent_witness:
  "map_touch \<lparr>touched = Inr False, read_data = Inr (0, 0, 0),
       touch_point = Inr None, touch_point_again = Inr None\<rparr> (Some ''STMPE610'') = None
   \<and> map_touch \<lparr>touched = Inr False, read_data = Inr (0, 0, 0),
       touch_point = Inr None, touch_point_again = Inr None\<rparr> (Some ''XPT2046'') = None
   \<and> map_touch \<lparr>touched = Inr True, read_data = Inl SensorError,
       touch_point = Inl SensorError, touch_point_again = Inl SensorError\<rparr>
       (Some ''STMPE610'') = None
   \<and> map_touch \<lparr>touched = Inr True, read_data = Inl SensorError,
       touch_point = Inl SensorError, touch_point_again = Inl SensorError\<rparr>
       (Some ''XPT2046'') = None
   \<and> map_touch \<lparr>touched = Inr True, read_data = Inr (2000, 2000, 50),
       touch_point = Inr None, touch_point_again = Inr None\<rparr> (Some ''STMPE610'')
       = Some (160, 120)
   \<and> touched \<lparr>touched = Inr True, read_data = Inr (2000, 2000, 50),
       touch_point = Inr None, touch_point_again = Inr None\<rparr> = Inr True
   \<and> (0::int) \<le> fst (160, 120) \<and> fst (160 :: int, 120 :: int) \<le> WIDTH - 1
   \<and> (0::int) \<le> snd (160 :: int, 120 :: int) \<and> snd (160 :: int, 120 :: int) \<le> HEIGHT - 1"
proof -
  let ?idle = "\<lparr>touched = Inr False, read_data = Inr (0, 0, 0),
       touch_point = Inr None, touch_point_again = Inr None\<rparr>"
  let ?broken = "\<lparr>touched = Inr True, read_data = Inl SensorError,
       touch_point = Inl SensorError, touch_point_again = Inl SensorError\<rparr>"
  let ?pressed = "\<lparr>touched = Inr True, read_data = Inr (2000, 2000, 50),
       touch_point = Inr None, touch_point_again = Inr None\<rparr>"
  have a: "map_touch ?idle (Some ''STMPE610'') = None"
    using map_touch_absent [of "Some ''STMPE610''" "?idle"] by simp
  have b: "map_touch ?idle (Some ''XPT2046'') = None"
    using map_touch_absent [of "Some ''XPT2046''" "?idle"] by simp
  have c: "map_touch ?broken (Some ''STMPE610'') = None"
    using map_touch_absent [of "Some ''STMPE610''" "?broken" SensorError] by simp
  have d: "map_touch ?broken (Some ''XPT2046'') = None"
    using map_touch_absent [of "Some ''XPT2046''" "?broken" SensorError] by simp
  have e: "map_touch ?pressed (Some ''STMPE610'') = Some (160, 120)"
    by (simp add: map_touch_def map_touch_body_def calibrate_def clamp_to_screen_def
        py_int_def WIDTH_def HEIGHT_def)
  from e map_touch_absent [of "Some ''STMPE610''" "?pressed" SensorError "(160, 120)"]
  have f: "touched ?pressed = Inr True
     \<and> 0 \<le> fst (160 :: int, 120 :: int) \<and> fst (160 :: int, 120 :: int) \<le> WIDTH - 1
     \<and> 0 \<le> snd (160 :: int, 120 :: int) \<and> snd (160 :: int, 120 :: int) \<le> HEIGHT - 1"
    by simp
  from a b c d e f show ?thesis by simp
qed

text \<open>
  C10. For every touch object, whatever it reports, and every driver tag other than
  \<open>STMPE610\<close> and \<open>XPT2046\<close> (the tag \<open>None\<close> of a missing controller included), the
  body of \<^verbatim>\<open>map_touch\<close> fails on reading the never-assigned \<^verbatim>\<open>screen_x\<close> and
  the handler turns the failure into \<open>None\<close>. The function of the redesigned variant is
  the same text.
\<close>

theorem map_touch_unknown_driver:
  "(driver \<noteq> Some ''STMPE610'' \<and> driver \<noteq> Some ''XPT2046'' \<longrightarrow>
      map_touch_body touch driver = Inl UnboundLocalError \<and> map_touch touch driver = None)
   \<and> map_touch touch None = None"
  by (simp add: map_touch_def map_touch_body_def)

theorem map_touch_unknown_driver_witness:
  "Some ''FT6206'' \<noteq> Some ''STMPE610'' \<and> Some ''FT6206'' \<noteq> Some ''XPT2046''
   \<and> map_touch_body
        \<lparr>touched = Inr True, read_data = Inr (2000, 2000, 50),
         touch_point = Inr (Some (2000, 2000)), touch_point_again = Inr (Some (2000, 2000))\<rparr>
        (Some ''FT6206'') = Inl UnboundLocalError
   \<and> map_touch
        \<lparr>touched = Inr True, read_data = Inr (2000, 2000, 50),
         touch_point = Inr (Some (2000, 2000)), touch_point_again = Inr (Some (2000, 2000))\<rparr>
        (Some ''FT6206'') = None"
proof -
  have h: "Some ''FT6206'' \<noteq> Some ''STMPE610'' \<and> Some ''FT6206'' \<noteq> Some ''XPT2046''"
    by simp
  from h map_touch_unknown_driver [of "Some ''FT6206''"
      "\<lparr>touched = Inr True, read_data = Inr (2000, 2000, 50),
         touch_point = Inr (Some (2000, 2000)), touch_point_again = Inr (Some (2000, 2000))\<rparr>"]
  show ?thesis by simp
qed

subsection \<open>Boot animation\<close>

lemma blob_on_orbit:
  "(fst (blob_center t i) - real_of_int (render_width div 2))\<^sup>2
     + (snd (blob_center t i) - real_of_int (render_height div 2))\<^sup>2
   = (orbit_radius (boot_phase_of t))\<^sup>2"
proof -
  have "(cos a * r)\<^sup>2 + (sin a * r)\<^sup>2 = r\<^sup>2" for a r :: real
  proof -
    have "(cos a * r)\<^sup>2 + (sin a * r)\<^sup>2 = ((cos a)\<^sup>2 + (sin a)\<^sup>2) * r\<^sup>2"
      by (simp only: power_mult_distrib distrib_right)
    also have "(cos a)\<^sup>2 + (sin a)\<^sup>2 = 1" by (simp add: add.commute)
    finally show ?thesis by simp
  qed
  then show ?thesis by (simp add: blob_center_def Let_def)
qed

lemma boot_phase_cases:
  obtains (spin) "t < 0.4"
      "boot_phase_of t = \<lparr>orbit_radius = 80 * (1 - t / 0.4), blob_size = 8 * (t / 0.4),
         explosion = 0\<rparr>"
    | (orbit) "0.4 \<le> t" "t < 0.7"
      "boot_phase_of t = \<lparr>orbit_radius = 25, blob_size = 8 + 8 * ((t - 0.4) / 0.3),
         explosion = 0\<rparr>"
    | (merge) "0.7 \<le> t"
      "boot_phase_of t = \<lparr>orbit_radius = 25 * (1 - (t - 0.7) / 0.3 * 0.8),
         blob_size = 16 + 30 * ((t - 0.7) / 0.3), explosion = (t - 0.7) / 0.3\<rparr>"
proof -
  consider "t < 0.4" | "0.4 \<le> t" "t < 0.7" | "0.7 \<le> t" by linarith
  then show thesis
  proof cases
    case 1
    then show thesis by (intro spin) (simp_all add: boot_phase_of_def Let_def)
  next
    case 2
    then show thesis by (intro orbit) (simp_all add: boot_phase_of_def Let_def)
  next
    case 3
    then show thesis by (intro merge) (simp_all add: boot_phase_of_def Let_def)
  qed
qed

lemma orbit_radius_le:
  assumes "0 \<le> t"
  shows "orbit_radius (boot_phase_of t) \<le> 80"
proof (cases t rule: boot_phase_cases)
  case spin
  from assms have "0 \<le> t / 0.4" by simp
  with spin(1) assms show ?thesis by (simp add: spin(2) field_simps)
next
  case orbit
  then show ?thesis by simp
next
  case merge
  then have "0 \<le> (t - 0.7) / 0.3 * 0.8" by simp
  with merge(1) show ?thesis by (simp add: merge(2) field_simps)
qed

lemma blob_size_nonneg:
  assumes "0 \<le> t"
  shows "0 \<le> blob_size (boot_phase_of t)"
proof (cases t rule: boot_phase_cases)
  case spin
  from assms have "0 \<le> t / 0.4" by simp
  with spin(1) assms show ?thesis by (simp add: spin(2) field_simps)
next
  case orbit
  then have "0 \<le> (t - 0.4) / 0.3" by simp
  with orbit(1) show ?thesis by (simp add: orbit(3) field_simps)
next
  case merge
  then have "0 \<le> (t - 0.7) / 0.3" by simp
  with merge(1) show ?thesis by (simp add: merge(2) field_simps)
qed

lemma boot_start: "boot_phase_of 0 = \<lparr>orbit_radius = 80, blob_size = 0, explosion = 0\<rparr>"
  by (simp add: boot_phase_of_def)

lemma boot_ts_before_end: "t \<in> set boot_ts \<Longrightarrow> 0 \<le> t \<and> t < 1"
  by (auto simp add: boot_ts_def boot_t_def boot_frames_def)

lemma boot_last_frame:
  "last boot_ts = 89 / 90 \<and> text_alpha (89 / 90) = Some (44 / 45)"
  by (simp add: boot_ts_def boot_t_def boot_frames_def last_map text_alpha_def)

lemma boot_ts_le_last: "t \<in> set boot_ts \<Longrightarrow> t \<le> 89 / 90"
proof -
  assume "t \<in> set boot_ts"
  then obtain n :: nat where n: "n < 90" and t: "t = real n / 90"
    by (auto simp add: boot_ts_def boot_t_def boot_frames_def)
  from n have "real n \<le> 89" by simp
  with t show ?thesis by simp
qed

lemma boot_ts_hd: "hd boot_ts = 0"
  by (simp add: boot_ts_def boot_t_def boot_frames_def hd_map)

lemma boot_t_mem: "n < 90 \<Longrightarrow> boot_t n \<in> set boot_ts"
  by (simp add: boot_ts_def boot_frames_def)

lemma boot_last_phase:
  "boot_phase_of (89 / 90)
     = \<lparr>orbit_radius = 155 / 27, blob_size = 404 / 9, explosion = 26 / 27\<rparr>"
  by (simp add: boot_phase_of_def)

lemma orbit_radius_ge_last:
  assumes "0.4 \<le> t" and "t \<le> 89 / 90"
  shows "155 / 27 \<le> orbit_radius (boot_phase_of t)"
proof (cases t rule: boot_phase_cases)
  case spin
  with assms show ?thesis by simp
next
  case orbit
  then show ?thesis by simp
next
  case merge
  with assms(2) show ?thesis by (simp add: merge(2) field_simps)
qed

lemma text_color_last: "text_color (89 / 90) = Some (176, 97, 249)"
  by (simp add: text_color_def text_alpha_def scale_color_def GRADIENT_PRIMARY_def py_int_def)

text \<open>
  C8, as stated, fails in its second half: the loop is \<^verbatim>\<open>for frame in range(frames)\<close>
  with \<^verbatim>\<open>t = frame / frames\<close> and 90 frames, so \<open>t = 1\<close> is not a frame of the
  sequence. The last frame has \<open>t = 89/90\<close>: the label's alpha is 44/45, its colour
  (176, 97, 249) and not the full label colour, and the orbit radius is 155/27.
\<close>

theorem boot_sequence_counterexample:
  "boot_frames = 90
   \<and> last boot_ts = 89 / 90
   \<and> 1 \<notin> set boot_ts
   \<and> text_alpha (last boot_ts) = Some (44 / 45)
   \<and> text_color (last boot_ts) = Some (176, 97, 249)
   \<and> text_color (last boot_ts) \<noteq> Some (GRADIENT_PRIMARY ! 1)
   \<and> orbit_radius (boot_phase_of (last boot_ts)) = 155 / 27"
proof -
  have l: "last boot_ts = 89 / 90" using boot_last_frame by simp
  have n: "1 \<notin> set boot_ts" using boot_ts_before_end [of 1] by auto
  have a: "text_alpha (89 / 90) = Some (44 / 45)" using boot_last_frame by simp
  have c: "Some (176, 97, 249) \<noteq> Some (GRADIENT_PRIMARY ! 1)"
    by (simp add: GRADIENT_PRIMARY_def)
  show ?thesis
    unfolding l using n a c
    by (simp add: boot_frames_def text_color_last boot_last_phase)
qed

text \<open>
  C8, amended. At \<open>t = 0\<close>, the first frame, the orbit radius is 80, the largest it is
  anywhere in the sequence, every blob's centre lies at that distance from the centre of
  the frame, the blob size is 0, the smallest it is anywhere in the sequence, and every
  blob is drawn with size 0. The frames have \<open>t = frame / 90\<close> for \<open>frame\<close> from 0 to 89,
  so \<open>t\<close> stops at 89/90. The label is not drawn up to \<open>t = 0.5\<close>; after that its alpha
  is \<open>(t - 0.5) / 0.5\<close>, largest on the last frame, where it is 44/45 (label colour
  (176, 97, 249)). From the orbiting phase on (\<open>t\<close> at least 0.4) the orbit radius is
  smallest on the last frame, where it is 155/27.
\<close>

theorem boot_sequence_amended:
  "boot_phase_of 0 = \<lparr>orbit_radius = 80, blob_size = 0, explosion = 0\<rparr>
   \<and> hd boot_ts = 0
   \<and> (0 \<le> t \<and> t \<le> 1 \<longrightarrow>
        orbit_radius (boot_phase_of t) \<le> orbit_radius (boot_phase_of 0)
        \<and> blob_size (boot_phase_of 0) \<le> blob_size (boot_phase_of t))
   \<and> (fst (blob_center 0 i) - 80)\<^sup>2 + (snd (blob_center 0 i) - 60)\<^sup>2 = 80\<^sup>2
   \<and> blob_current_size 0 i = 0
   \<and> (t \<in> set boot_ts \<longrightarrow> 0 \<le> t \<and> t \<le> last boot_ts)
   \<and> last boot_ts = 89 / 90
   \<and> (t \<in> set boot_ts \<and> t \<le> 0.5 \<longrightarrow> text_alpha t = None)
   \<and> (t \<in> set boot_ts \<and> 0.5 < t \<longrightarrow>
        text_alpha t = Some ((t - 0.5) / 0.5) \<and> (t - 0.5) / 0.5 \<le> 44 / 45)
   \<and> text_alpha (last boot_ts) = Some (44 / 45)
   \<and> text_color (last boot_ts) = Some (176, 97, 249)
   \<and> (t \<in> set boot_ts \<and> 0.4 \<le> t \<longrightarrow>
        orbit_radius (boot_phase_of (last boot_ts)) \<le> orbit_radius (boot_phase_of t))
   \<and> orbit_radius (boot_phase_of (last boot_ts)) = 155 / 27"
proof -
  have l: "last boot_ts = 89 / 90" using boot_last_frame by simp
  show ?thesis
    unfolding l
  proof (intro conjI impI)
    show "boot_phase_of 0 = \<lparr>orbit_radius = 80, blob_size = 0, explosion = 0\<rparr>"
      by (rule boot_start)
    show "hd boot_ts = 0" by (rule boot_ts_hd)
    show "orbit_radius (boot_phase_of t) \<le> orbit_radius (boot_phase_of 0)"
      if "0 \<le> t \<and> t \<le> 1"
      using that orbit_radius_le [of t] by (simp add: boot_start)
    show "blob_size (boot_phase_of 0) \<le> blob_size (boot_phase_of t)"
      if "0 \<le> t \<and> t \<le> 1"
      using that blob_size_nonneg [of t] by (simp add: boot_start)
    show "(fst (blob_center 0 i) - 80)\<^sup>2 + (snd (blob_center 0 i) - 60)\<^sup>2 = 80\<^sup>2"
      using blob_on_orbit [of 0 i]
      by (simp add: boot_start render_width_def render_height_def)
    show "blob_current_size 0 i = 0"
      by (simp add: blob_current_size_def boot_start py_int_def)
    show "0 \<le> t" if "t \<in> set boot_ts"
      using that boot_ts_before_end [of t] by simp
    show "t \<le> 89 / 90" if "t \<in> set boot_ts"
      using that by (rule boot_ts_le_last)
    show "(89 / 90 :: real) = 89 / 90" by (rule refl)
    show "text_alpha t = None" if "t \<in> set boot_ts \<and> t \<le> 0.5"
      using that by (simp add: text_alpha_def)
    show "text_alpha t = Some ((t - 0.5) / 0.5)" if "t \<in> set boot_ts \<and> 0.5 < t"
      using that by (simp add: text_alpha_def)
    show "(t - 0.5) / 0.5 \<le> 44 / 45" if "t \<in> set boot_ts \<and> 0.5 < t"
      using that boot_ts_le_last [of t] by (simp add: field_simps)
    show "text_alpha (89 / 90) = Some (44 / 45)"
      using boot_last_frame by simp
    show "text_color (89 / 90) = Some (176, 97, 249)"
      by (rule text_color_last)
    show "orbit_radius (boot_phase_of (89 / 90)) \<le> orbit_radius (boot_phase_of t)"
      if "t \<in> set boot_ts \<and> 0.4 \<le> t"
      using that boot_ts_le_last [of t] orbit_radius_ge_last [of t]
      by (simp add: boot_last_phase)
    show "orbit_radius (boot_phase_of (89 / 90)) = 155 / 27"
      by (simp add: boot_last_phase)
  qed
qed

theorem boot_sequence_amended_witness:
  "boot_t 60 \<in> set boot_ts
   \<and> (0::real) \<le> boot_t 60 \<and> boot_t 60 \<le> 1 \<and> 0.5 < boot_t 60 \<and> 0.4 \<le> boot_t 60
   \<and> orbit_radius (boot_phase_of (boot_t 60)) \<le> orbit_radius (boot_phase_of 0)
   \<and> blob_size (boot_phase_of 0) \<le> blob_size (boot_phase_of (boot_t 60))
   \<and> boot_t 60 \<le> last boot_ts
   \<and> text_alpha (boot_t 60) = Some ((boot_t 60 - 0.5) / 0.5)
   \<and> (boot_t 60 - 0.5) / 0.5 \<le> 44 / 45
   \<and> orbit_radius (boot_phase_of (last boot_ts)) \<le> orbit_radius (boot_phase_of (boot_t 60))
   \<and> boot_t 30 \<in> set boot_ts \<and> boot_t 30 \<le> 0.5
   \<and> text_alpha (boot_t 30) = None
   \<and> blob_current_size 0 2 = 0"
proof -
  note t = boot_sequence_amended [of "boot_t 60" 2]
  note u = boot_sequence_amended [of "boot_t 30" 2]
  have m: "boot_t 60 \<in> set boot_ts" and m': "boot_t 30 \<in> set boot_ts"
    by (simp_all add: boot_t_mem)
  have v: "boot_t 60 = 2 / 3" and v': "boot_t 30 = 1 / 3"
    by (simp_all add: boot_t_def boot_frames_def)
  have r: "(0::real) \<le> boot_t 60 \<and> boot_t 60 \<le> 1" by (simp add: v)
  have h: "0.5 < boot_t 60" and g: "0.4 \<le> boot_t 60" and k: "boot_t 30 \<le> 0.5"
    by (simp_all add: v v')
  note c = t [THEN conjunct2, THEN conjunct2]
  have a: "orbit_radius (boot_phase_of (boot_t 60)) \<le> orbit_radius (boot_phase_of 0)
     \<and> blob_size (boot_phase_of 0) \<le> blob_size (boot_phase_of (boot_t 60))"
    by (rule mp [OF c [THEN conjunct1] r])
  note c5 = c [THEN conjunct2, THEN conjunct2]
  have z: "blob_current_size 0 2 = 0" by (rule c5 [THEN conjunct1])
  note c6 = c5 [THEN conjunct2]
  have b: "0 \<le> boot_t 60 \<and> boot_t 60 \<le> last boot_ts"
    by (rule mp [OF c6 [THEN conjunct1] m])
  note c8 = c6 [THEN conjunct2, THEN conjunct2]
  note c9 = c8 [THEN conjunct2]
  have e: "text_alpha (boot_t 60) = Some ((boot_t 60 - 0.5) / 0.5)
     \<and> (boot_t 60 - 0.5) / 0.5 \<le> 44 / 45"
    by (rule mp [OF c9 [THEN conjunct1] conjI [OF m h]])
  note c12 = c9 [THEN conjunct2, THEN conjunct2, THEN conjunct2]
  have f: "orbit_radius (boot_phase_of (last boot_ts))
             \<le> orbit_radius (boot_phase_of (boot_t 60))"
    by (rule mp [OF c12 [THEN conjunct1] conjI [OF m g]])
  have n: "text_alpha (boot_t 30) = None"
    by (rule mp [OF u [THEN conjunct2, THEN conjunct2, THEN conjunct2, THEN conjunct2,
          THEN conjunct2, THEN conjunct2, THEN conjunct2, THEN conjunct1] conjI [OF m' k]])
  show ?thesis
    by (intro conjI)
      (rule m r [THEN conjunct1] r [THEN conjunct2] h g a [THEN conjunct1] a [THEN conjunct2]
        b [THEN conjunct2] e [THEN conjunct1] e [THEN conjunct2] f m' k n z)+
qed

subsection \<open>Frame composition\<close>

lemma drive_card_cong:
  assumes "is_shared e1 d = is_shared e2 d"
    and "get_filesystem_type e1 d = get_filesystem_type e2 d"
  shows "drive_card lib fonts e1 y d = drive_card lib fonts e2 y d"
  using assms by (simp add: drive_card_def)

lemma drive_cards_cong:
  assumes "\<forall>d \<in> set ds. is_shared e1 d = is_shared e2 d
             \<and> get_filesystem_type e1 d = get_filesystem_type e2 d"
  shows "drive_cards lib fonts e1 y ds = drive_cards lib fonts e2 y ds"
  using assms
proof (induction ds arbitrary: y)
  case Nil
  show ?case by simp
next
  case (Cons d ds)
  from Cons.prems have "drive_card lib fonts e1 y d = drive_card lib fonts e2 y d"
    by (intro drive_card_cong) simp_all
  moreover from Cons.prems
  have "drive_cards lib fonts e1 (y + 50 + 6) ds = drive_cards lib fonts e2 (y + 50 + 6) ds"
    by (intro Cons.IH) simp
  ultimately show ?case by (simp only: drive_cards.simps)
qed

lemma overview_cong:
  assumes "strftime_HM (now e1) = strftime_HM (now e2)"
    and "strftime_dB (now e1) = strftime_dB (now e2)"
    and "in_drives inp \<noteq> [] \<longrightarrow>
           is_shared e1 (hd (in_drives inp)) = is_shared e2 (hd (in_drives inp))"
  shows "draw_overview_screen lib fonts e1 inp = draw_overview_screen lib fonts e2 inp"
proof -
  from assms(1,2) have c: "overview_clock fonts e1 = overview_clock fonts e2"
    by (simp add: overview_clock_def)
  from assms(3) have d: "overview_drives lib fonts e1 (in_drives inp)
      = overview_drives lib fonts e2 (in_drives inp)"
    by (cases "in_drives inp") (simp_all add: overview_drives_def overview_drive_status_def)
  show ?thesis by (simp add: draw_overview_screen_def c d)
qed

lemma drives_cong:
  assumes "\<forall>d \<in> set (take 3 (in_drives inp)). is_shared e1 d = is_shared e2 d
             \<and> get_filesystem_type e1 d = get_filesystem_type e2 d"
  shows "draw_drives_screen lib fonts e1 inp = draw_drives_screen lib fonts e2 inp"
  using drive_cards_cong [OF assms, of lib fonts 42]
  by (simp add: draw_drives_screen_def Let_def)


text \<open>
  The status square of the first drive on the overview screen follows the output of
  \<^verbatim>\<open>smbstatus -S\<close> at the time of drawing: with every input of the frame and the
  clock the same, two outputs that differ on the drive's name give different frames.
\<close>

lemma overview_share_status_differs:
  "compose_frame
     \<lparr>getbbox = (\<lambda>f s. (0, 0, 6 * int (length s), 11)), fmt = (\<lambda>n v. str_nat (nat \<lfloor>v\<rfloor>))\<rparr>
     \<lparr>font_title = (), font_big = (), font_medium = (), font_regular = (),
      font_small = (), font_tiny = ()\<rparr>
     \<lparr>now = \<lparr>hour = 12, minute = 0, day = 3, month = 11\<rparr>,
      smbstatus = Inr ''usb1'', findmnt = (\<lambda>p. Inr [])\<rparr>
     \<lparr>in_stats = \<lparr>cpu_percent = 12.5, temperature = Some 48, memory_percent = 40,
        memory_used_gb = 1.5, memory_total_gb = 4, disk_percent = 60, disk_used_gb = 18,
        disk_total_gb = 30, net_speed_kb = 250, ip_address = ''192.168.1.20''\<rparr>,
      in_version = ''1.0.0'', in_is_latest = True,
      in_drives = [\<lparr>mount_path = ''/srv/usb-shares/usb1'', name = ''usb1'',
        total_bytes = 1000, free_bytes = 500, used_bytes = 500, used_percent = 50\<rparr>],
      in_cpu_history = [10, 12.5], in_memory_history = [40, 40],
      in_disk_history = [60, 60], in_network_history = [0, 25],
      in_current_screen = 0, in_animation_phase = 0.1\<rparr>
   \<noteq> compose_frame
     \<lparr>getbbox = (\<lambda>f s. (0, 0, 6 * int (length s), 11)), fmt = (\<lambda>n v. str_nat (nat \<lfloor>v\<rfloor>))\<rparr>
     \<lparr>font_title = (), font_big = (), font_medium = (), font_regular = (),
      font_small = (), font_tiny = ()\<rparr>
     \<lparr>now = \<lparr>hour = 12, minute = 0, day = 3, month = 11\<rparr>,
      smbstatus = Inr [], findmnt = (\<lambda>p. Inr [])\<rparr>
     \<lparr>in_stats = \<lparr>cpu_percent = 12.5, temperature = Some 48, memory_percent = 40,
        memory_used_gb = 1.5, memory_total_gb = 4, disk_percent = 60, disk_used_gb = 18,
        disk_total_gb = 30, net_speed_kb = 250, ip_address = ''192.168.1.20''\<rparr>,
      in_version = ''1.0.0'', in_is_latest = True,
      in_drives = [\<lparr>mount_path = ''/srv/usb-shares/usb1'', name = ''usb1'',
        total_bytes = 1000, free_bytes = 500, used_bytes = 500, used_percent = 50\<rparr>],
      in_cpu_history = [10, 12.5], in_memory_history = [40, 40],
      in_disk_history = [60, 60], in_network_history = [0, 25],
      in_current_screen = 0, in_animation_phase = 0.1\<rparr>"
proof -
  let ?d = "\<lparr>mount_path = ''/srv/usb-shares/usb1'', name = ''usb1'',
        total_bytes = 1000, free_bytes = 500, used_bytes = 500, used_percent = 50\<rparr>"
  let ?n = "\<lparr>hour = 12, minute = 0, day = 3, month = 11\<rparr>"
  have s1: "(overview_drive_status \<lparr>now = ?n, smbstatus = Inr ''usb1'', findmnt = (\<lambda>p. Inr [])\<rparr> ?d
              :: unit draw_op list)
         = [Rectangle (12, 213, 18, 219) (0, 255, 180)]"
    by (simp add: overview_drive_status_def is_shared_def GRADIENT_SUCCESS_def)
  have s2: "(overview_drive_status \<lparr>now = ?n, smbstatus = Inr [], findmnt = (\<lambda>p. Inr [])\<rparr> ?d
              :: unit draw_op list)
         = [Rectangle (12, 213, 18, 219) (60, 60, 70)]"
    by (simp add: overview_drive_status_def is_shared_def)
  have c: "overview_clock F \<lparr>now = ?n, smbstatus = Inr ''usb1'', findmnt = (\<lambda>p. Inr [])\<rparr>
         = overview_clock F \<lparr>now = ?n, smbstatus = Inr [], findmnt = (\<lambda>p. Inr [])\<rparr>"
    for F :: "unit fonts"
    by (simp add: overview_clock_def)
  show ?thesis
    by (simp add: compose_frame_def draw_overview_screen_def overview_drives_def s1 s2 c)
qed

text \<open>
  C2, as stated, fails: \<^verbatim>\<open>draw_overview_screen\<close> reads \<^verbatim>\<open>datetime.now()\<close>
  and draws the time and the date, so the same stats, histories, drives, navigation state
  and animation phase (and version) composed at 12:00 and at 12:30 give different drawing
  calls: the text at (250, 8) is \<open>12:00\<close> in one frame and \<open>12:30\<close> in the other.
\<close>

theorem frame_determinism_counterexample:
  "compose_frame
     \<lparr>getbbox = (\<lambda>f s. (0, 0, 6 * int (length s), 11)), fmt = (\<lambda>n v. str_nat (nat \<lfloor>v\<rfloor>))\<rparr>
     \<lparr>font_title = (), font_big = (), font_medium = (), font_regular = (),
      font_small = (), font_tiny = ()\<rparr>
     \<lparr>now = \<lparr>hour = 12, minute = 0, day = 3, month = 11\<rparr>,
      smbstatus = Inr [], findmnt = (\<lambda>p. Inr [])\<rparr>
     \<lparr>in_stats = \<lparr>cpu_percent = 12.5, temperature = Some 48, memory_percent = 40,
        memory_used_gb = 1.5, memory_total_gb = 4, disk_percent = 60, disk_used_gb = 18,
        disk_total_gb = 30, net_speed_kb = 250, ip_address = ''192.168.1.20''\<rparr>,
      in_version = ''1.0.0'', in_is_latest = True, in_drives = [],
      in_cpu_history = [10, 12.5], in_memory_history = [40, 40],
      in_disk_history = [60, 60], in_network_history = [0, 25],
      in_current_screen = 0, in_animation_phase = 0.1\<rparr>
   \<noteq> compose_frame
     \<lparr>getbbox = (\<lambda>f s. (0, 0, 6 * int (length s), 11)), fmt = (\<lambda>n v. str_nat (nat \<lfloor>v\<rfloor>))\<rparr>
     \<lparr>font_title = (), font_big = (), font_medium = (), font_regular = (),
      font_small = (), font_tiny = ()\<rparr>
     \<lparr>now = \<lparr>hour = 12, minute = 30, day = 3, month = 11\<rparr>,
      smbstatus = Inr [], findmnt = (\<lambda>p. Inr [])\<rparr>
     \<lparr>in_stats = \<lparr>cpu_percent = 12.5, temperature = Some 48, memory_percent = 40,
        memory_used_gb = 1.5, memory_total_gb = 4, disk_percent = 60, disk_used_gb = 18,
        disk_total_gb = 30, net_speed_kb = 250, ip_address = ''192.168.1.20''\<rparr>,
      in_version = ''1.0.0'', in_is_latest = True, in_drives = [],
      in_cpu_history = [10, 12.5], in_memory_history = [40, 40],
      in_disk_history = [60, 60], in_network_history = [0, 25],
      in_current_screen = 0, in_animation_phase = 0.1\<rparr>
   \<and> overview_clock
       \<lparr>font_title = (), font_big = (), font_medium = (), font_regular = (),
        font_small = (), font_tiny = ()\<rparr>
       \<lparr>now = \<lparr>hour = 12, minute = 0, day = 3, month = 11\<rparr>,
        smbstatus = Inr [], findmnt = (\<lambda>p. Inr [])\<rparr>
     = [Text (250, 8) ''12:00'' () TEXT_PRIMARY, Text (252, 26) ''03 Nov'' () TEXT_SECONDARY]
   \<and> overview_clock
       \<lparr>font_title = (), font_big = (), font_medium = (), font_regular = (),
        font_small = (), font_tiny = ()\<rparr>
       \<lparr>now = \<lparr>hour = 12, minute = 30, day = 3, month = 11\<rparr>,
        smbstatus = Inr [], findmnt = (\<lambda>p. Inr [])\<rparr>
     = [Text (250, 8) ''12:30'' () TEXT_PRIMARY, Text (252, 26) ''03 Nov'' () TEXT_SECONDARY]"
proof (intro conjI)
  let ?F = "\<lparr>font_title = (), font_big = (), font_medium = (), font_regular = (),
      font_small = (), font_tiny = ()\<rparr>"
  let ?e1 = "\<lparr>now = \<lparr>hour = 12, minute = 0, day = 3, month = 11\<rparr>,
      smbstatus = Inr [], findmnt = (\<lambda>p. Inr [])\<rparr>"
  let ?e2 = "\<lparr>now = \<lparr>hour = 12, minute = 30, day = 3, month = 11\<rparr>,
      smbstatus = Inr [], findmnt = (\<lambda>p. Inr [])\<rparr>"
  show c1: "overview_clock ?F ?e1
     = [Text (250, 8) ''12:00'' () TEXT_PRIMARY, Text (252, 26) ''03 Nov'' () TEXT_SECONDARY]"
    by (simp add: overview_clock_def strftime_HM_def strftime_dB_def two_digits_def
        digit_char_def month_abbr_def)
  show c2: "overview_clock ?F ?e2
     = [Text (250, 8) ''12:30'' () TEXT_PRIMARY, Text (252, 26) ''03 Nov'' () TEXT_SECONDARY]"
    by (simp add: overview_clock_def strftime_HM_def strftime_dB_def two_digits_def
        digit_char_def month_abbr_def)
  have d: "overview_drives lib ?F ?e1 [] = overview_drives lib ?F ?e2 []" for lib :: "unit pylib"
    by (simp add: overview_drives_def)
  show "compose_frame
     \<lparr>getbbox = (\<lambda>f s. (0, 0, 6 * int (length s), 11)), fmt = (\<lambda>n v. str_nat (nat \<lfloor>v\<rfloor>))\<rparr>
     ?F ?e1
     \<lparr>in_stats = \<lparr>cpu_percent = 12.5, temperature = Some 48, memory_percent = 40,
        memory_used_gb = 1.5, memory_total_gb = 4, disk_percent = 60, disk_used_gb = 18,
        disk_total_gb = 30, net_speed_kb = 250, ip_address = ''192.168.1.20''\<rparr>,
      in_version = ''1.0.0'', in_is_latest = True, in_drives = [],
      in_cpu_history = [10, 12.5], in_memory_history = [40, 40],
      in_disk_history = [60, 60], in_network_history = [0, 25],
      in_current_screen = 0, in_animation_phase = 0.1\<rparr>
   \<noteq> compose_frame
     \<lparr>getbbox = (\<lambda>f s. (0, 0, 6 * int (length s), 11)), fmt = (\<lambda>n v. str_nat (nat \<lfloor>v\<rfloor>))\<rparr>
     ?F ?e2
     \<lparr>in_stats = \<lparr>cpu_percent = 12.5, temperature = Some 48, memory_percent = 40,
        memory_used_gb = 1.5, memory_total_gb = 4, disk_percent = 60, disk_used_gb = 18,
        disk_total_gb = 30, net_speed_kb = 250, ip_address = ''192.168.1.20''\<rparr>,
      in_version = ''1.0.0'', in_is_latest = True, in_drives = [],
      in_cpu_history = [10, 12.5], in_memory_history = [40, 40],
      in_disk_history = [60, 60], in_network_history = [0, 25],
      in_current_screen = 0, in_animation_phase = 0.1\<rparr>"
    by (simp add: compose_frame_def draw_overview_screen_def c1 c2 d)
qed

text \<open>
  C2, amended. A frame is a function of the stats, the histories, the drive list, the
  current screen, the animation phase and the version pair together with what the
  renderer reads from outside while it draws. On the overview screen that is the
  \<^verbatim>\<open>%H:%M\<close> and \<^verbatim>\<open>%d %b\<close> strings of the wall clock and the share status of
  the first drive; on the drives screen the share status and the filesystem type of the
  first three drives; the statistics screen reads nothing else. Two compositions with the
  same inputs whose readings agree on these give the same frame; in particular they do
  whenever the clock and the two commands' outputs are the same.
\<close>

theorem frame_determinism_amended:
  "(in_current_screen inp = 0
      \<and> strftime_HM (now e1) = strftime_HM (now e2)
      \<and> strftime_dB (now e1) = strftime_dB (now e2)
      \<and> (in_drives inp \<noteq> [] \<longrightarrow>
           is_shared e1 (hd (in_drives inp)) = is_shared e2 (hd (in_drives inp)))
      \<longrightarrow> compose_frame lib fonts e1 inp = compose_frame lib fonts e2 inp)
   \<and> (in_current_screen inp = 1
      \<and> (\<forall>d \<in> set (take 3 (in_drives inp)). is_shared e1 d = is_shared e2 d
             \<and> get_filesystem_type e1 d = get_filesystem_type e2 d)
      \<longrightarrow> compose_frame lib fonts e1 inp = compose_frame lib fonts e2 inp)
   \<and> (2 \<le> in_current_screen inp
      \<longrightarrow> compose_frame lib fonts e1 inp = compose_frame lib fonts e2 inp)
   \<and> (now e1 = now e2 \<and> smbstatus e1 = smbstatus e2 \<and> findmnt e1 = findmnt e2
      \<longrightarrow> compose_frame lib fonts e1 inp = compose_frame lib fonts e2 inp)"
proof (intro conjI impI)
  assume a: "in_current_screen inp = 0
      \<and> strftime_HM (now e1) = strftime_HM (now e2)
      \<and> strftime_dB (now e1) = strftime_dB (now e2)
      \<and> (in_drives inp \<noteq> [] \<longrightarrow>
           is_shared e1 (hd (in_drives inp)) = is_shared e2 (hd (in_drives inp)))"
  then have "draw_overview_screen lib fonts e1 inp = draw_overview_screen lib fonts e2 inp"
    by (intro overview_cong) simp_all
  with a show "compose_frame lib fonts e1 inp = compose_frame lib fonts e2 inp"
    by (simp add: compose_frame_def)
next
  assume a: "in_current_screen inp = 1
      \<and> (\<forall>d \<in> set (take 3 (in_drives inp)). is_shared e1 d = is_shared e2 d
             \<and> get_filesystem_type e1 d = get_filesystem_type e2 d)"
  then have "draw_drives_screen lib fonts e1 inp = draw_drives_screen lib fonts e2 inp"
    by (intro drives_cong) simp
  with a show "compose_frame lib fonts e1 inp = compose_frame lib fonts e2 inp"
    by (simp add: compose_frame_def)
next
  assume "2 \<le> in_current_screen inp"
  then show "compose_frame lib fonts e1 inp = compose_frame lib fonts e2 inp"
    by (simp add: compose_frame_def)
next
  assume a: "now e1 = now e2 \<and> smbstatus e1 = smbstatus e2 \<and> findmnt e1 = findmnt e2"
  then have s: "is_shared e1 d = is_shared e2 d"
    and f: "get_filesystem_type e1 d = get_filesystem_type e2 d" for d
    by (simp_all add: is_shared_def get_filesystem_type_def)
  from a s have "draw_overview_screen lib fonts e1 inp = draw_overview_screen lib fonts e2 inp"
    by (intro overview_cong) simp_all
  moreover from s f
  have "draw_drives_screen lib fonts e1 inp = draw_drives_screen lib fonts e2 inp"
    by (intro drives_cong) simp
  ultimately show "compose_frame lib fonts e1 inp = compose_frame lib fonts e2 inp"
    by (simp add: compose_frame_def)
qed

theorem frame_determinism_amended_witness:
  "compose_frame
     \<lparr>getbbox = (\<lambda>f s. (0, 0, 6 * int (length s), 11)), fmt = (\<lambda>n v. str_nat (nat \<lfloor>v\<rfloor>))\<rparr>
     \<lparr>font_title = (), font_big = (), font_medium = (), font_regular = (),
      font_small = (), font_tiny = ()\<rparr>
     \<lparr>now = \<lparr>hour = 12, minute = 0, day = 3, month = 11\<rparr>,
      smbstatus = Inr ''usb1'', findmnt = (\<lambda>p. Inr ''ext4'')\<rparr>
     \<lparr>in_stats = \<lparr>cpu_percent = 12.5, temperature = Some 48, memory_percent = 40,
        memory_used_gb = 1.5, memory_total_gb = 4, disk_percent = 60, disk_used_gb = 18,
        disk_total_gb = 30, net_speed_kb = 250, ip_address = ''192.168.1.20''\<rparr>,
      in_version = ''1.0.0'', in_is_latest = True,
      in_drives = [\<lparr>mount_path = ''/srv/usb-shares/usb1'', name = ''usb1'',
        total_bytes = 1000, free_bytes = 500, used_bytes = 500, used_percent = 50\<rparr>],
      in_cpu_history = [10, 12.5], in_memory_history = [40, 40],
      in_disk_history = [60, 60], in_network_history = [0, 25],
      in_current_screen = 0, in_animation_phase = 0.1\<rparr>
   = compose_frame
     \<lparr>getbbox = (\<lambda>f s. (0, 0, 6 * int (length s), 11)), fmt = (\<lambda>n v. str_nat (nat \<lfloor>v\<rfloor>))\<rparr>
     \<lparr>font_title = (), font_big = (), font_medium = (), font_regular = (),
      font_small = (), font_tiny = ()\<rparr>
     \<lparr>now = \<lparr>hour = 12, minute = 0, day = 3, month = 11\<rparr>,
      smbstatus = Inr ''usb1'', findmnt = (\<lambda>p. Inr ''vfat'')\<rparr>
     \<lparr>in_stats = \<lparr>cpu_percent = 12.5, temperature = Some 48, memory_percent = 40,
        memory_used_gb = 1.5, memory_total_gb = 4, disk_percent = 60, disk_used_gb = 18,
        disk_total_gb = 30, net_speed_kb = 250, ip_address = ''192.168.1.20''\<rparr>,
      in_version = ''1.0.0'', in_is_latest = True,
      in_drives = [\<lparr>mount_path = ''/srv/usb-shares/usb1'', name = ''usb1'',
        total_bytes = 1000, free_bytes = 500, used_bytes = 500, used_percent = 50\<rparr>],
      in_cpu_history = [10, 12.5], in_memory_history = [40, 40],
      in_disk_history = [60, 60], in_network_history = [0, 25],
      in_current_screen = 0, in_animation_phase = 0.1\<rparr>
   \<and> compose_frame
     \<lparr>getbbox = (\<lambda>f s. (0, 0, 6 * int (length s), 11)), fmt = (\<lambda>n v. str_nat (nat \<lfloor>v\<rfloor>))\<rparr>
     \<lparr>font_title = (), font_big = (), font_medium = (), font_regular = (),
      font_small = (), font_tiny = ()\<rparr>
     \<lparr>now = \<lparr>hour = 12, minute = 0, day = 3, month = 11\<rparr>,
      smbstatus = Inr ''usb1'', findmnt = (\<lambda>p. Inr ''ext4'')\<rparr>
     \<lparr>in_stats = \<lparr>cpu_percent = 12.5, temperature = Some 48, memory_percent = 40,
        memory_used_gb = 1.5, memory_total_gb = 4, disk_percent = 60, disk_used_gb = 18,
        disk_total_gb = 30, net_speed_kb = 250, ip_address = ''192.168.1.20''\<rparr>,
      in_version = ''1.0.0'', in_is_latest = True,
      in_drives = [\<lparr>mount_path = ''/srv/usb-shares/usb1'', name = ''usb1'',
        total_bytes = 1000, free_bytes = 500, used_bytes = 500, used_percent = 50\<rparr>],
      in_cpu_history = [10, 12.5], in_memory_history = [40, 40],
      in_disk_history = [60, 60], in_network_history = [0, 25],
      in_current_screen = 1, in_animation_phase = 0.1\<rparr>
   = compose_frame
     \<lparr>getbbox = (\<lambda>f s. (0, 0, 6 * int (length s), 11)), fmt = (\<lambda>n v. str_nat (nat \<lfloor>v\<rfloor>))\<rparr>
     \<lparr>font_title = (), font_big = (), font_medium = (), font_regular = (),
      font_small = (), font_tiny = ()\<rparr>
     \<lparr>now = \<lparr>hour = 12, minute = 30, day = 3, month = 11\<rparr>,
      smbstatus = Inr ''usb1'', findmnt = (\<lambda>p. Inr ''ext4'')\<rparr>
     \<lparr>in_stats = \<lparr>cpu_percent = 12.5, temperature = Some 48, memory_percent = 40,
        memory_used_gb = 1.5, memory_total_gb = 4, disk_percent = 60, disk_used_gb = 18,
        disk_total_gb = 30, net_speed_kb = 250, ip_address = ''192.168.1.20''\<rparr>,
      in_version = ''1.0.0'', in_is_latest = True,
      in_drives = [\<lparr>mount_path = ''/srv/usb-shares/usb1'', name = ''usb1'',
        total_bytes = 1000, free_bytes = 500, used_bytes = 500, used_percent = 50\<rparr>],
      in_cpu_history = [10, 12.5], in_memory_history = [40, 40],
      in_disk_history = [60, 60], in_network_history = [0, 25],
      in_current_screen = 1, in_animation_phase = 0.1\<rparr>
   \<and> compose_frame
     \<lparr>getbbox = (\<lambda>f s. (0, 0, 6 * int (length s), 11)), fmt = (\<lambda>n v. str_nat (nat \<lfloor>v\<rfloor>))\<rparr>
     \<lparr>font_title = (), font_big = (), font_medium = (), font_regular = (),
      font_small = (), font_tiny = ()\<rparr>
     \<lparr>now = \<lparr>hour = 12, minute = 0, day = 3, month = 11\<rparr>,
      smbstatus = Inr ''usb1'', findmnt = (\<lambda>p. Inr ''ext4'')\<rparr>
     \<lparr>in_stats = \<lparr>cpu_percent = 12.5, temperature = Some 48, memory_percent = 40,
        memory_used_gb = 1.5, memory_total_gb = 4, disk_percent = 60, disk_used_gb = 18,
        disk_total_gb = 30, net_speed_kb = 250, ip_address = ''192.168.1.20''\<rparr>,
      in_version = ''1.0.0'', in_is_latest = True,
      in_drives = [\<lparr>mount_path = ''/srv/usb-shares/usb1'', name = ''usb1'',
        total_bytes = 1000, free_bytes = 500, used_bytes = 500, used_percent = 50\<rparr>],
      in_cpu_history = [10, 12.5], in_memory_history = [40, 40],
      in_disk_history = [60, 60], in_network_history = [0, 25],
      in_current_screen = 2, in_animation_phase = 0.1\<rparr>
   = compose_frame
     \<lparr>getbbox = (\<lambda>f s. (0, 0, 6 * int (length s), 11)), fmt = (\<lambda>n v. str_nat (nat \<lfloor>v\<rfloor>))\<rparr>
     \<lparr>font_title = (), font_big = (), font_medium = (), font_regular = (),
      font_small = (), font_tiny = ()\<rparr>
     \<lparr>now = \<lparr>hour = 12, minute = 30, day = 3, month = 11\<rparr>,
      smbstatus = Inl SensorError, findmnt = (\<lambda>p. Inr ''vfat'')\<rparr>
     \<lparr>in_stats = \<lparr>cpu_percent = 12.5, temperature = Some 48, memory_percent = 40,
        memory_used_gb = 1.5, memory_total_gb = 4, disk_percent = 60, disk_used_gb = 18,
        disk_total_gb = 30, net_speed_kb = 250, ip_address = ''192.168.1.20''\<rparr>,
      in_version = ''1.0.0'', in_is_latest = True,
      in_drives = [\<lparr>mount_path = ''/srv/usb-shares/usb1'', name = ''usb1'',
        total_bytes = 1000, free_bytes = 500, used_bytes = 500, used_percent = 50\<rparr>],
      in_cpu_history = [10, 12.5], in_memory_history = [40, 40],
      in_disk_history = [60, 60], in_network_history = [0, 25],
      in_current_screen = 2, in_animation_phase = 0.1\<rparr>"
proof -
  let ?L = "\<lparr>getbbox = (\<lambda>f s. (0, 0, 6 * int (length s), 11)), fmt = (\<lambda>n v. str_nat (nat \<lfloor>v\<rfloor>))\<rparr>"
  let ?F = "\<lparr>font_title = (), font_big = (), font_medium = (), font_regular = (),
      font_small = (), font_tiny = ()\<rparr>"
  let ?d = "\<lparr>mount_path = ''/srv/usb-shares/usb1'', name = ''usb1'',
        total_bytes = 1000, free_bytes = 500, used_bytes = 500, used_percent = 50\<rparr>"
  let ?ea = "\<lparr>now = \<lparr>hour = 12, minute = 0, day = 3, month = 11\<rparr>,
      smbstatus = Inr ''usb1'', findmnt = (\<lambda>p. Inr ''ext4'')\<rparr>"
  let ?eb = "\<lparr>now = \<lparr>hour = 12, minute = 0, day = 3, month = 11\<rparr>,
      smbstatus = Inr ''usb1'', findmnt = (\<lambda>p. Inr ''vfat'')\<rparr>"
  let ?ec = "\<lparr>now = \<lparr>hour = 12, minute = 30, day = 3, month = 11\<rparr>,
      smbstatus = Inr ''usb1'', findmnt = (\<lambda>p. Inr ''ext4'')\<rparr>"
  let ?ed = "\<lparr>now = \<lparr>hour = 12, minute = 30, day = 3, month = 11\<rparr>,
      smbstatus = Inl SensorError, findmnt = (\<lambda>p. Inr ''vfat'')\<rparr>"
  let ?i0 = "\<lparr>in_stats = \<lparr>cpu_percent = 12.5, temperature = Some 48, memory_percent = 40,
        memory_used_gb = 1.5, memory_total_gb = 4, disk_percent = 60, disk_used_gb = 18,
        disk_total_gb = 30, net_speed_kb = 250, ip_address = ''192.168.1.20''\<rparr>,
      in_version = ''1.0.0'', in_is_latest = True,
      in_drives = [\<lparr>mount_path = ''/srv/usb-shares/usb1'', name = ''usb1'',
        total_bytes = 1000, free_bytes = 500, used_bytes = 500, used_percent = 50\<rparr>],
      in_cpu_history = [10, 12.5], in_memory_history = [40, 40],
      in_disk_history = [60, 60], in_network_history = [0, 25],
      in_current_screen = 0, in_animation_phase = 0.1\<rparr>"
  let ?i1 = "\<lparr>in_stats = \<lparr>cpu_percent = 12.5, temperature = Some 48, memory_percent = 40,
        memory_used_gb = 1.5, memory_total_gb = 4, disk_percent = 60, disk_used_gb = 18,
        disk_total_gb = 30, net_speed_kb = 250, ip_address = ''192.168.1.20''\<rparr>,
      in_version = ''1.0.0'', in_is_latest = True,
      in_drives = [\<lparr>mount_path = ''/srv/usb-shares/usb1'', name = ''usb1'',
        total_bytes = 1000, free_bytes = 500, used_bytes = 500, used_percent = 50\<rparr>],
      in_cpu_history = [10, 12.5], in_memory_history = [40, 40],
      in_disk_history = [60, 60], in_network_history = [0, 25],
      in_current_screen = 1, in_animation_phase = 0.1\<rparr>"
  let ?i2 = "\<lparr>in_stats = \<lparr>cpu_percent = 12.5, temperature = Some 48, memory_percent = 40,
        memory_used_gb = 1.5, memory_total_gb = 4, disk_percent = 60, disk_used_gb = 18,
        disk_total_gb = 30, net_speed_kb = 250, ip_address = ''192.168.1.20''\<rparr>,
      in_version = ''1.0.0'', in_is_latest = True,
      in_drives = [\<lparr>mount_path = ''/srv/usb-shares/usb1'', name = ''usb1'',
        total_bytes = 1000, free_bytes = 500, used_bytes = 500, used_percent = 50\<rparr>],
      in_cpu_history = [10, 12.5], in_memory_history = [40, 40],
      in_disk_history = [60, 60], in_network_history = [0, 25],
      in_current_screen = 2, in_animation_phase = 0.1\<rparr>"
  have sa: "is_shared ?ea ?d" and sb: "is_shared ?eb ?d" and sc: "is_shared ?ec ?d"
    by (simp_all add: is_shared_def)
  have fa: "get_filesystem_type ?ea ?d = ''ext4''"
    and fc: "get_filesystem_type ?ec ?d = ''ext4''"
    by (simp_all add: get_filesystem_type_def strip_def is_space_def)
  have h0: "in_current_screen ?i0 = 0
      \<and> strftime_HM (now ?ea) = strftime_HM (now ?eb)
      \<and> strftime_dB (now ?ea) = strftime_dB (now ?eb)
      \<and> (in_drives ?i0 \<noteq> [] \<longrightarrow>
           is_shared ?ea (hd (in_drives ?i0)) = is_shared ?eb (hd (in_drives ?i0)))"
    using sa sb by simp
  have h1: "in_current_screen ?i1 = 1
      \<and> (\<forall>d \<in> set (take 3 (in_drives ?i1)). is_shared ?ea d = is_shared ?ec d
             \<and> get_filesystem_type ?ea d = get_filesystem_type ?ec d)"
    using sa sc fa fc by simp
  have h2: "2 \<le> in_current_screen ?i2" by simp
  have r0: "compose_frame ?L ?F ?ea ?i0 = compose_frame ?L ?F ?eb ?i0"
    by (rule mp [OF frame_determinism_amended [THEN conjunct1] h0])
  have r1: "compose_frame ?L ?F ?ea ?i1 = compose_frame ?L ?F ?ec ?i1"
    by (rule mp [OF frame_determinism_amended [THEN conjunct2, THEN conjunct1] h1])
  have r2: "compose_frame ?L ?F ?ea ?i2 = compose_frame ?L ?F ?ed ?i2"
    by (rule mp [OF frame_determinism_amended
          [THEN conjunct2, THEN conjunct2, THEN conjunct1] h2])
  from r0 r1 r2 show ?thesis by (intro conjI)
qed

end
